theory Spec2Isabelle
  imports Main
begin

section \<open>Python values, exceptions and the objects the wrapper touches\<close>

text \<open>
  The instrumentation lives in one Python module,
  \<^verbatim>\<open>opentelemetry/instrumentation/aws_lambda/__init__.py\<close>.

  A Python \<^verbatim>\<open>str\<close> is a sequence of Unicode code points, so it is a list of natural
  numbers here; \<open>ustr\<close> gives the code points of a literal of the source, which is
  ASCII. Names that only the source writes (environment variable names, attribute
  names, attribute keys of a span, exception types) stay literals.
\<close>

type_synonym pystr = "nat list"

definition ustr :: "string \<Rightarrow> pystr" where
  "ustr s = map of_char s"

text \<open>
  The Lambda event and the Lambda context are caller data of any shape ("user-defined,
  so it could be anything"), so they are values of a small universe of Python values:
  \<open>PDict\<close> is a \<^verbatim>\<open>dict\<close> (an association list, the first binding of a key is the
  one a lookup finds) and \<open>PObj\<close> is a plain object with named attributes and no
  \<^verbatim>\<open>__getitem__\<close>.
\<close>

datatype pyval =
    PNone
  | PBool bool
  | PInt int
  | PStr pystr
  | PList "pyval list"
  | PDict "(pyval \<times> pyval) list"
  | PObj "(string \<times> pyval) list"

text \<open>
  Exceptions are values. The built-in ones the module can raise by itself are
  constructors; \<open>Raised ty msg\<close> is any other exception (of the handler, of the
  library), with its type name and its message.
\<close>

datatype pyexc =
    IndexError
  | TypeError
  | KeyError
  | AttributeError
  | ValueError
  | Raised string pystr

type_synonym kwargs = "(string \<times> pyval) list"

type_synonym environ = "string \<Rightarrow> pystr option"

text \<open>
  \<^verbatim>\<open>obj[key]\<close> with a string key: a \<^verbatim>\<open>dict\<close> answers or raises \<^verbatim>\<open>KeyError\<close>;
  \<^verbatim>\<open>None\<close>, numbers and plain objects are not subscriptable and strings and lists
  take integer indices only, all of them \<^verbatim>\<open>TypeError\<close>.
\<close>

fun getitem :: "pyval \<Rightarrow> pystr \<Rightarrow> pyexc + pyval" where
  "getitem (PDict kvs) k =
     (case map_of kvs (PStr k) of Some v \<Rightarrow> Inr v | None \<Rightarrow> Inl KeyError)"
| "getitem _ k = Inl TypeError"

text \<open>\<^verbatim>\<open>obj.name\<close>: only an object that has the attribute answers.\<close>

fun getattr :: "pyval \<Rightarrow> string \<Rightarrow> pyexc + pyval" where
  "getattr (PObj attrs) name =
     (case map_of attrs name of Some v \<Rightarrow> Inr v | None \<Rightarrow> Inl AttributeError)"
| "getattr _ name = Inl AttributeError"

text \<open>\<^verbatim>\<open>args[i]\<close> on the tuple of positional arguments.\<close>

definition arg_at :: "pyval list \<Rightarrow> nat \<Rightarrow> pyexc + pyval" where
  "arg_at args i = (if i < length args then Inr (args ! i) else Inl IndexError)"

text \<open>\<^verbatim>\<open>os.environ.get(name)\<close>: the string, or \<^verbatim>\<open>None\<close> when the variable is unset.\<close>

definition environ_get :: "environ \<Rightarrow> string \<Rightarrow> pyval" where
  "environ_get env name = (case env name of None \<Rightarrow> PNone | Some v \<Rightarrow> PStr v)"

text \<open>
  \<^verbatim>\<open>sep.join(xs)\<close>: the items joined when all of them are strings, \<^verbatim>\<open>TypeError\<close> when
  one is not.
\<close>

fun str_join :: "pystr \<Rightarrow> pystr list \<Rightarrow> pystr" where
  "str_join sep [] = []"
| "str_join sep [x] = x"
| "str_join sep (x # y # ys) = x @ sep @ str_join sep (y # ys)"

fun as_strs :: "pyval list \<Rightarrow> pystr list option" where
  "as_strs [] = Some []"
| "as_strs (PStr s # xs) = (case as_strs xs of None \<Rightarrow> None | Some ss \<Rightarrow> Some (s # ss))"
| "as_strs (x # xs) = None"

definition join :: "pystr \<Rightarrow> pyval list \<Rightarrow> pyexc + pystr" where
  "join sep xs = (case as_strs xs of None \<Rightarrow> Inl TypeError | Some ss \<Rightarrow> Inr (str_join sep ss))"

subsection \<open>The tracing library, as far as the module sees it\<close>

text \<open>
  A \<^verbatim>\<open>Context\<close> of the tracing API is a dictionary: the slot of the current span
  (kept under a private key) and whatever else a propagator stored. Being a
  dictionary, it is falsy exactly when it is empty. \<^verbatim>\<open>get_current_span\<close> gives the
  span in the slot, or \<^verbatim>\<open>INVALID_SPAN\<close> when there is none, and the trace flags of a
  span context are an integer whose bit 0 is the sampling flag.
\<close>

record span_context =
  trace_id :: nat
  span_id :: nat
  trace_flags :: nat

record otel_context =
  current_span :: "span_context option"
  entries :: "(string \<times> pyval) list"

definition INVALID_SPAN :: span_context where
  "INVALID_SPAN = \<lparr>trace_id = 0, span_id = 0, trace_flags = 0\<rparr>"

definition sampled :: "span_context \<Rightarrow> bool" where
  "sampled sc = (trace_flags sc mod 2 = 1)"

definition get_current_span :: "otel_context \<Rightarrow> span_context" where
  "get_current_span ctx = (case current_span ctx of None \<Rightarrow> INVALID_SPAN | Some sc \<Rightarrow> sc)"

definition truthy_context :: "otel_context \<Rightarrow> bool" where
  "truthy_context ctx = (current_span ctx \<noteq> None \<or> entries ctx \<noteq> [])"

datatype span_kind = INTERNAL | SERVER | CLIENT | PRODUCER | CONSUMER

text \<open>
  What the library decides is a parameter of the model:
  \<^item> the X-Ray format's \<^verbatim>\<open>extract\<close>, always called on a one-entry carrier of strings
    that the module builds itself, and returning a context for every string;
  \<^item> the \<^verbatim>\<open>extract\<close> of the globally configured text-map format, called on whatever
    the event holds under \<^verbatim>\<open>"headers"\<close>, so it may raise;
  \<^item> whether the span the tracer starts is recording;
  \<^item> the \<^verbatim>\<open>force_flush\<close> of the provider that \<^verbatim>\<open>get_tracer_provider()\<close> returns
    at the call. The module calls it with no guard, so the model has both ways it can
    fail: a provider with no such method (\<open>None\<close>; the attribute read raises
    \<^verbatim>\<open>AttributeError\<close>), and a method that raises (it answers \<open>Some e\<close>; \<open>None\<close> is
    a normal return, whose value the module drops).
\<close>

record sdk =
  xray_extract :: "(string \<times> pystr) list \<Rightarrow> otel_context"
  textmap_extract :: "pyval \<Rightarrow> pyexc + otel_context"
  is_recording :: "pystr \<Rightarrow> otel_context \<Rightarrow> span_kind \<Rightarrow> bool"
  force_flush :: "(int \<Rightarrow> pyexc option) option"

text \<open>
  The carrier key of the X-Ray format, imported from the library as
  \<^verbatim>\<open>TRACE_HEADER_KEY\<close>.
\<close>

definition TRACE_HEADER_KEY :: string where
  "TRACE_HEADER_KEY = ''X-Amzn-Trace-Id''"

text \<open>
  Modelled from the spec: \<^verbatim>\<open>SpanAttributes.FAAS_EXECUTION\<close> is a constant of the
  semantic-conventions package; the list of emitted attribute keys names it
  \<^verbatim>\<open>faas.execution\<close>.
\<close>

definition FAAS_EXECUTION :: string where
  "FAAS_EXECUTION = ''faas.execution''"

text \<open>
  Everything the wrapper does to the outside is recorded, in order: the debug log, the
  span scope (opened by \<^verbatim>\<open>start_as_current_span\<close>, closed when the \<^verbatim>\<open>with\<close> block is
  left, with the exception that left it if there is one), the attribute calls, the
  call of the original handler and the call of \<^verbatim>\<open>force_flush\<close>.
\<close>

datatype event =
    LogDebug string
  | StartSpan pystr otel_context span_kind
  | SetAttribute string pyval
  | HandlerCall "pyval list" kwargs
  | EndSpan "pyexc option"
  | ForceFlush int

section \<open>Extracting the parent context\<close>

definition extract_failed_msg :: string where
  "extract_failed_msg = ''Extracting context from Lambda Event failed: either enable X-Ray active tracing or configure API Gateway to trigger this Lambda function as a pure proxy. Otherwise, generated spans will have an invalid (empty) parent context.''"

text \<open>
  \<^verbatim>\<open>_default_event_context_extractor\<close>: the \<^verbatim>\<open>try\<close> catches \<^verbatim>\<open>TypeError\<close> and
  \<^verbatim>\<open>KeyError\<close> of the subscript only; any other exception would pass.
\<close>

definition default_event_context_extractor ::
  "sdk \<Rightarrow> pyval \<Rightarrow> event list \<times> (pyexc + otel_context)" where
  "default_event_context_extractor lib lambda_event =
     (case getitem lambda_event (ustr ''headers'') of
        Inr headers \<Rightarrow> ([], textmap_extract lib headers)
      | Inl e \<Rightarrow>
          if e = TypeError \<or> e = KeyError
          then ([LogDebug extract_failed_msg], textmap_extract lib (PDict []))
          else ([], Inl e))"

text \<open>
  \<^verbatim>\<open>_determine_parent_context\<close>. \<^verbatim>\<open>if xray_env_var:\<close> is the truth value of an
  optional string (set and not empty); \<^verbatim>\<open>parent_context and ...\<close> is the truth value
  of \<^verbatim>\<open>None\<close> or of a context.
\<close>

definition determine_parent_context ::
  "sdk \<Rightarrow> environ \<Rightarrow> pyval \<Rightarrow> event list \<times> (pyexc + otel_context)" where
  "determine_parent_context lib env lambda_event =
     (let xray_env_var = env ''_X_AMZN_TRACE_ID'';
          parent_context =
            (case xray_env_var of
               None \<Rightarrow> None
             | Some v \<Rightarrow>
                 if v \<noteq> [] then Some (xray_extract lib [(TRACE_HEADER_KEY, v)]) else None)
      in case parent_context of
           None \<Rightarrow> default_event_context_extractor lib lambda_event
         | Some ctx \<Rightarrow>
             if truthy_context ctx \<and> sampled (get_current_span ctx)
             then ([], Inr ctx)
             else default_event_context_extractor lib lambda_event)"

section \<open>The flush timeout, read when the module is loaded\<close>

text \<open>
  What \<^verbatim>\<open>int(s)\<close> does with a string depends on the interpreter: its limit on integer
  string conversion (0 means no limit) and its Unicode database, which says which code
  points are white space and which are decimal digits, and of what value. The
  interpreter asks the database about code points from 127 on only.
\<close>

record runtime =
  int_max_str_digits :: nat
  uni_is_space :: "nat \<Rightarrow> bool"
  uni_decimal :: "nat \<Rightarrow> nat option"

text \<open>
  \<^verbatim>\<open>int(s)\<close>, base 10, first brings the string to ASCII. An ASCII string (all code
  points below 128) is taken as it is. In any other string a code point below 127
  stays, Unicode white space becomes a space, a Unicode decimal digit becomes the
  ASCII digit of its value, and at the first code point that is none of these the
  result ends with a question mark.
\<close>

fun transform_decimal_and_space :: "runtime \<Rightarrow> pystr \<Rightarrow> pystr" where
  "transform_decimal_and_space rt [] = []"
| "transform_decimal_and_space rt (ch # rest) =
     (if ch < 127 then ch # transform_decimal_and_space rt rest
      else if uni_is_space rt ch then 32 # transform_decimal_and_space rt rest
      else (case uni_decimal rt ch of
              None \<Rightarrow> [63]
            | Some d \<Rightarrow>
                if d < 10 then (48 + d) # transform_decimal_and_space rt rest else [63]))"

definition to_ascii :: "runtime \<Rightarrow> pystr \<Rightarrow> pystr" where
  "to_ascii rt s = (if list_all (\<lambda>ch. ch < 128) s then s else transform_decimal_and_space rt s)"

text \<open>
  Then the ASCII text is read: white space around the literal is dropped (tab, line
  feed, vertical tab, form feed, carriage return, space), one sign may lead, and then
  come decimal digits, where single underscores may stand between two digits. Anything
  else is \<^verbatim>\<open>ValueError\<close>. An interpreter with a limit also raises \<^verbatim>\<open>ValueError\<close>
  when the literal has more than 640 digits and more digits than the limit.
\<close>

definition is_space :: "nat \<Rightarrow> bool" where
  "is_space c = ((9 \<le> c \<and> c \<le> 13) \<or> c = 32)"

definition is_digit :: "nat \<Rightarrow> bool" where
  "is_digit c = (48 \<le> c \<and> c \<le> 57)"

definition digit_val :: "nat \<Rightarrow> nat" where
  "digit_val c = c - 48"

definition strip :: "pystr \<Rightarrow> pystr" where
  "strip s = rev (dropWhile is_space (rev (dropWhile is_space s)))"

fun parse_digits :: "pystr \<Rightarrow> nat \<Rightarrow> nat option" where
  "parse_digits [] acc = Some acc"
| "parse_digits [c] acc =
     (if is_digit c then Some (10 * acc + digit_val c) else None)"
| "parse_digits (c # d # ds) acc =
     (if is_digit c then parse_digits (d # ds) (10 * acc + digit_val c)
      else if c = 95 \<and> is_digit d then parse_digits ds (10 * acc + digit_val d)
      else None)"

definition parse_unsigned :: "pystr \<Rightarrow> nat option" where
  "parse_unsigned s =
     (case s of
        [] \<Rightarrow> None
      | c # cs \<Rightarrow> if is_digit c then parse_digits cs (digit_val c) else None)"

definition int_of_str :: "runtime \<Rightarrow> pystr \<Rightarrow> pyexc + int" where
  "int_of_str rt s =
     (let t = strip (to_ascii rt s);
          neg = (t \<noteq> [] \<and> hd t = 45);
          body = (if t \<noteq> [] \<and> (hd t = 45 \<or> hd t = 43) then tl t else t);
          ndigits = length (filter is_digit body);
          maxd = int_max_str_digits rt
      in case parse_unsigned body of
           None \<Rightarrow> Inl ValueError
         | Some n \<Rightarrow>
             if 640 < ndigits \<and> 0 < maxd \<and> maxd < ndigits then Inl ValueError
             else Inr (if neg then - int n else int n))"

text \<open>
  The module-level names computed at import. The tracer is the library's; the
  timeout is \<^verbatim>\<open>int(os.environ.get("OTEL_INSTRUMENTATION_AWS_LAMBDA_FLUSH_TIMEOUT", 30000))\<close>,
  where \<^verbatim>\<open>get\<close> answers the integer 30000 when the variable is unset and
  \<^verbatim>\<open>int\<close> of an integer is that integer. An exception here is an exception of the
  import: there is no module then.
\<close>

record module_state =
  flush_timeout :: int

definition module_load :: "runtime \<Rightarrow> environ \<Rightarrow> pyexc + module_state" where
  "module_load rt env =
     (case env ''OTEL_INSTRUMENTATION_AWS_LAMBDA_FLUSH_TIMEOUT'' of
        None \<Rightarrow> Inr \<lparr>flush_timeout = 30000\<rparr>
      | Some s \<Rightarrow>
          (case int_of_str rt s of
             Inl e \<Rightarrow> Inl e
           | Inr n \<Rightarrow> Inr \<lparr>flush_timeout = n\<rparr>))"

section \<open>The decorator\<close>

text \<open>
  A handler is any callable: what calling it does, which is to return a value or to
  raise, and its \<^verbatim>\<open>__module__\<close> and \<^verbatim>\<open>__name__\<close>. A function has both as strings,
  but they can be assigned to later, and other callables (a \<^verbatim>\<open>functools.partial\<close>,
  an instance with \<^verbatim>\<open>__call__\<close>) have no \<^verbatim>\<open>__name__\<close> at all: each is the value
  of the attribute, or \<open>None\<close> when the object has no such attribute. Callables live in
  a store, and the decorated function holds a reference to the original one.
\<close>

record func =
  f_module :: "pyval option"
  f_name :: "pyval option"
  f_call :: "pyval list \<Rightarrow> kwargs \<Rightarrow> pyexc + pyval"

type_synonym heap = "nat \<Rightarrow> func"

text \<open>
  \<^verbatim>\<open>otel_handler(orig_handler)\<close> builds the closure. \<^verbatim>\<open>functools.wraps\<close> copies the
  original's \<^verbatim>\<open>__module__\<close> and \<^verbatim>\<open>__name__\<close> onto it at that moment, each one if the
  original has it (\<open>w_module\<close> and \<open>w_name\<close> are what was copied); nothing else is
  computed at decoration time.
\<close>

record wrapper =
  w_module :: "pyval option"
  w_name :: "pyval option"
  w_wrapped :: nat

definition otel_handler :: "heap \<Rightarrow> nat \<Rightarrow> wrapper" where
  "otel_handler hp orig_handler =
     \<lparr>w_module = f_module (hp orig_handler),
      w_name = f_name (hp orig_handler),
      w_wrapped = orig_handler\<rparr>"

text \<open>
  \<^verbatim>\<open>".".join([orig_handler.__module__, orig_handler.__name__])\<close>: the two attribute
  reads come first, in this order, and each raises \<^verbatim>\<open>AttributeError\<close> when the
  attribute is missing; then the join.
\<close>

definition handler_name :: "func \<Rightarrow> pyexc + pystr" where
  "handler_name orig_handler =
     (case f_module orig_handler of
        None \<Rightarrow> Inl AttributeError
      | Some mo \<Rightarrow>
          (case f_name orig_handler of
             None \<Rightarrow> Inl AttributeError
           | Some na \<Rightarrow> join (ustr ''.'') [mo, na]))"

text \<open>
  The \<^verbatim>\<open>if span.is_recording():\<close> block. Each attribute value is evaluated before
  its \<^verbatim>\<open>set_attribute\<close> call, so a failing read leaves the calls made so far and
  the exception.
\<close>

definition set_faas_attributes ::
  "environ \<Rightarrow> pyval list \<Rightarrow> event list \<times> pyexc option" where
  "set_faas_attributes env args =
     (case arg_at args 1 of
        Inl e \<Rightarrow> ([], Some e)
      | Inr lambda_context \<Rightarrow>
          (case getattr lambda_context ''aws_request_id'' of
             Inl e \<Rightarrow> ([], Some e)
           | Inr request_id \<Rightarrow>
               (case getattr lambda_context ''invoked_function_arn'' of
                  Inl e \<Rightarrow> ([SetAttribute FAAS_EXECUTION request_id], Some e)
                | Inr arn \<Rightarrow>
                    ([SetAttribute FAAS_EXECUTION request_id,
                      SetAttribute ''faas.id'' arn,
                      SetAttribute ''faas.name''
                        (environ_get env ''AWS_LAMBDA_FUNCTION_NAME''),
                      SetAttribute ''faas.version''
                        (environ_get env ''AWS_LAMBDA_FUNCTION_VERSION'')],
                     None))))"

text \<open>The body of the \<^verbatim>\<open>with\<close> block: the attributes, then the original handler.\<close>

definition span_body ::
  "sdk \<Rightarrow> environ \<Rightarrow> func \<Rightarrow> pystr \<Rightarrow> otel_context \<Rightarrow> pyval list \<Rightarrow> kwargs
    \<Rightarrow> event list \<times> (pyexc + pyval)" where
  "span_body lib env orig_handler name parent_context args kw =
     (let (evs, failed) =
            (if is_recording lib name parent_context SERVER
             then set_faas_attributes env args
             else ([], None))
      in case failed of
           Some e \<Rightarrow> (evs, Inl e)
         | None \<Rightarrow> (evs @ [HandlerCall args kw], f_call orig_handler args kw))"

text \<open>
  The lines after the \<^verbatim>\<open>with\<close> block:
  \<^verbatim>\<open>get_tracer_provider().force_flush(flush_timeout)\<close> and \<^verbatim>\<open>return result\<close>. There is
  no \<^verbatim>\<open>try\<close> around the flush, so when it fails the caller gets its exception and not
  the result.
\<close>

definition flush_and_return ::
  "sdk \<Rightarrow> module_state \<Rightarrow> pyval \<Rightarrow> event list \<times> (pyexc + pyval)" where
  "flush_and_return lib m result =
     (case force_flush lib of
        None \<Rightarrow> ([], Inl AttributeError)
      | Some flush \<Rightarrow>
          ([ForceFlush (flush_timeout m)],
           case flush (flush_timeout m) of
             Some e \<Rightarrow> Inl e
           | None \<Rightarrow> Inr result))"

text \<open>
  \<^verbatim>\<open>otel_wrapper(*args, **kwargs)\<close>, the decorated function, called with the store
  and the environment as they are at the call. An exception inside the \<^verbatim>\<open>with\<close>
  block closes the span and goes on to the caller; the lines after the block run
  only when the block is left normally.
\<close>

definition otel_wrapper ::
  "sdk \<Rightarrow> module_state \<Rightarrow> environ \<Rightarrow> heap \<Rightarrow> wrapper \<Rightarrow> pyval list \<Rightarrow> kwargs
    \<Rightarrow> event list \<times> (pyexc + pyval)" where
  "otel_wrapper lib m env hp w args kw =
     (let orig_handler = hp (w_wrapped w)
      in case handler_name orig_handler of
           Inl e \<Rightarrow> ([], Inl e)
         | Inr orig_handler_name \<Rightarrow>
             (case arg_at args 0 of
                Inl e \<Rightarrow> ([], Inl e)
              | Inr lambda_event \<Rightarrow>
                  (case determine_parent_context lib env lambda_event of
                     (log, Inl e) \<Rightarrow> (log, Inl e)
                   | (log, Inr parent_context) \<Rightarrow>
                       (let (evs, res) =
                              span_body lib env orig_handler orig_handler_name
                                parent_context args kw;
                            in_span =
                              log @ [StartSpan orig_handler_name parent_context SERVER] @ evs
                        in case res of
                             Inl e \<Rightarrow> (in_span @ [EndSpan (Some e)], Inl e)
                           | Inr result \<Rightarrow>
                               (let (flushed, outcome) = flush_and_return lib m result
                                in (in_span @ [EndSpan None] @ flushed, outcome))))))"

section \<open>Reading a trace\<close>

fun is_set_attribute :: "event \<Rightarrow> bool" where
  "is_set_attribute (SetAttribute k v) = True"
| "is_set_attribute _ = False"

fun is_handler_call :: "event \<Rightarrow> bool" where
  "is_handler_call (HandlerCall a k) = True"
| "is_handler_call _ = False"

fun is_force_flush :: "event \<Rightarrow> bool" where
  "is_force_flush (ForceFlush t) = True"
| "is_force_flush _ = False"

fun span_names :: "event list \<Rightarrow> pystr list" where
  "span_names [] = []"
| "span_names (StartSpan n c k # evs) = n # span_names evs"
| "span_names (e # evs) = span_names evs"

text \<open>What \<^verbatim>\<open>str(i)\<close> prints for an integer: a minus sign when negative, then the decimal digits.\<close>

fun str_of_nat :: "nat \<Rightarrow> pystr" where
  "str_of_nat n =
     (if n < 10 then [48 + n]
      else str_of_nat (n div 10) @ [48 + n mod 10])"

declare str_of_nat.simps [simp del]

definition str_of_int :: "int \<Rightarrow> pystr" where
  "str_of_int i = (if i < 0 then 45 # str_of_nat (nat (- i)) else str_of_nat (nat i))"

section \<open>Example invocations\<close>

text \<open>
  The Unicode database of one interpreter (CPython 3.11, Unicode 14.0): the white
  space code points from 127 on, and the code point of the zero of every run of ten
  decimal digits above ASCII.
\<close>

definition unicode_spaces :: "nat list" where
  "unicode_spaces =
     [133, 160, 5760, 8192, 8193, 8194, 8195, 8196, 8197, 8198, 8199, 8200,
      8201, 8202, 8232, 8233, 8239, 8287, 12288]"

definition unicode_digit_zeros :: "nat list" where
  "unicode_digit_zeros =
     [1632, 1776, 1984, 2406, 2534, 2662, 2790, 2918, 3046, 3174, 3302, 3430,
      3558, 3664, 3792, 3872, 4160, 4240, 6112, 6160, 6470, 6608, 6784, 6800,
      6992, 7088, 7232, 7248, 42528, 43216, 43264, 43472, 43504, 43600,
      44016, 65296, 66720, 68912, 69734, 69872, 69942, 70096, 70384, 70736,
      70864, 71248, 71360, 71472, 71904, 72016, 72784, 73040, 73120, 92768,
      92864, 93008, 120782, 120792, 120802, 120812, 120822, 123200, 123632,
      125264, 130032]"

definition unicode_is_space :: "nat \<Rightarrow> bool" where
  "unicode_is_space ch = (ch \<in> set unicode_spaces)"

definition unicode_decimal :: "nat \<Rightarrow> nat option" where
  "unicode_decimal ch =
     (case find (\<lambda>z. z \<le> ch \<and> ch < z + 10) unicode_digit_zeros of
        None \<Rightarrow> None
      | Some z \<Rightarrow> Some (ch - z))"

definition cpython311 :: runtime where
  "cpython311 =
     \<lparr>int_max_str_digits = 4300, uni_is_space = unicode_is_space,
      uni_decimal = unicode_decimal\<rparr>"

definition xray_sampled_id :: pystr where
  "xray_sampled_id = ustr ''Root=1-5759e988-bd862e3fe1be46a994272793;Parent=53995c3f42cd8ad8;Sampled=1''"

definition xray_unsampled_id :: pystr where
  "xray_unsampled_id = ustr ''Root=1-5759e988-bd862e3fe1be46a994272793;Parent=53995c3f42cd8ad8;Sampled=0''"

definition empty_context :: otel_context where
  "empty_context = \<lparr>current_span = None, entries = []\<rparr>"

definition xray_ex :: "(string \<times> pystr) list \<Rightarrow> otel_context" where
  "xray_ex carrier =
     (case map_of carrier TRACE_HEADER_KEY of
        None \<Rightarrow> empty_context
      | Some v \<Rightarrow>
          \<lparr>current_span =
             Some \<lparr>trace_id = 1, span_id = 2,
                   trace_flags = (if v = xray_sampled_id then 1 else 0)\<rparr>,
           entries = []\<rparr>)"

fun textmap_ex :: "pyval \<Rightarrow> pyexc + otel_context" where
  "textmap_ex (PDict kvs) =
     Inr \<lparr>current_span =
            (case map_of kvs (PStr (ustr ''traceparent'')) of
               None \<Rightarrow> None
             | Some v \<Rightarrow> Some \<lparr>trace_id = 7, span_id = 8, trace_flags = 1\<rparr>),
          entries = []\<rparr>"
| "textmap_ex headers = Inl (Raised ''AttributeError'' (ustr ''object has no attribute get''))"

definition always_recording :: "pystr \<Rightarrow> otel_context \<Rightarrow> span_kind \<Rightarrow> bool" where
  "always_recording name ctx kind = True"

definition never_recording :: "pystr \<Rightarrow> otel_context \<Rightarrow> span_kind \<Rightarrow> bool" where
  "never_recording name ctx kind = False"

definition flush_ok :: "int \<Rightarrow> pyexc option" where
  "flush_ok timeout = None"

definition flush_fails :: "int \<Rightarrow> pyexc option" where
  "flush_fails timeout = Some (Raised ''RuntimeError'' (ustr ''export''))"

definition returns_ok :: "pyval list \<Rightarrow> kwargs \<Rightarrow> pyexc + pyval" where
  "returns_ok args kw = Inr (PStr (ustr ''200 OK''))"

definition raises_boom :: "pyval list \<Rightarrow> kwargs \<Rightarrow> pyexc + pyval" where
  "raises_boom args kw = Inl (Raised ''RuntimeError'' (ustr ''boom''))"

definition lib_ex :: sdk where
  "lib_ex =
     \<lparr>xray_extract = xray_ex, textmap_extract = textmap_ex,
      is_recording = always_recording, force_flush = Some flush_ok\<rparr>"

definition lib_not_recording :: sdk where
  "lib_not_recording = lib_ex\<lparr>is_recording := never_recording\<rparr>"

text \<open>A provider without \<^verbatim>\<open>force_flush\<close>, and one whose \<^verbatim>\<open>force_flush\<close> raises.\<close>

definition lib_no_flush :: sdk where
  "lib_no_flush = lib_ex\<lparr>force_flush := None\<rparr>"

definition lib_flush_raises :: sdk where
  "lib_flush_raises = lib_ex\<lparr>force_flush := Some flush_fails\<rparr>"

definition handler_ok :: func where
  "handler_ok =
     \<lparr>f_module = Some (PStr (ustr ''app'')), f_name = Some (PStr (ustr ''lambda_handler'')),
      f_call = returns_ok\<rparr>"

definition handler_raises :: func where
  "handler_raises =
     \<lparr>f_module = Some (PStr (ustr ''app'')), f_name = Some (PStr (ustr ''lambda_handler'')),
      f_call = raises_boom\<rparr>"

text \<open>A \<^verbatim>\<open>functools.partial\<close> of a handler: it has a \<^verbatim>\<open>__module__\<close> and no \<^verbatim>\<open>__name__\<close>.\<close>

definition handler_partial :: func where
  "handler_partial =
     \<lparr>f_module = Some (PStr (ustr ''functools'')), f_name = None,
      f_call = returns_ok\<rparr>"

definition heap_ok :: heap where
  "heap_ok = (\<lambda>r. handler_ok)"

definition heap_raises :: heap where
  "heap_raises = (\<lambda>r. handler_raises)"

definition heap_partial :: heap where
  "heap_partial = (\<lambda>r. handler_partial)"

definition heap_renamed :: heap where
  "heap_renamed = (\<lambda>r. handler_ok\<lparr>f_name := Some (PStr (ustr ''renamed''))\<rparr>)"

definition event_ex :: pyval where
  "event_ex =
     PDict [(PStr (ustr ''headers''),
             PDict [(PStr (ustr ''traceparent''),
                     PStr (ustr ''00-0af7651916cd43dd8448eb211c80319c-b7ad6b7169203331-01''))])]"

definition lambda_context_ex :: pyval where
  "lambda_context_ex =
     PObj [(''aws_request_id'', PStr (ustr ''req-1'')),
           (''invoked_function_arn'',
            PStr (ustr ''arn:aws:lambda:us-east-1:123456789012:function:f''))]"

definition env_lambda :: environ where
  "env_lambda =
     [''AWS_LAMBDA_FUNCTION_NAME'' \<mapsto> ustr ''f'',
      ''AWS_LAMBDA_FUNCTION_VERSION'' \<mapsto> ustr ''7'']"

definition env_xray :: environ where
  "env_xray = env_lambda(''_X_AMZN_TRACE_ID'' \<mapsto> xray_sampled_id)"

definition env_xray_unsampled :: environ where
  "env_xray_unsampled = env_lambda(''_X_AMZN_TRACE_ID'' \<mapsto> xray_unsampled_id)"

definition env_empty :: environ where
  "env_empty = (\<lambda>name. None)"

definition module_ex :: module_state where
  "module_ex = \<lparr>flush_timeout = 30000\<rparr>"

section \<open>The parent context\<close>

lemmas example_defs =
  lib_ex_def lib_not_recording_def lib_no_flush_def lib_flush_raises_def xray_ex_def
  always_recording_def never_recording_def flush_ok_def flush_fails_def returns_ok_def
  raises_boom_def handler_ok_def handler_raises_def handler_partial_def heap_ok_def
  heap_raises_def heap_partial_def heap_renamed_def event_ex_def lambda_context_ex_def
  env_lambda_def env_xray_def env_xray_unsampled_def env_empty_def module_ex_def
  xray_sampled_id_def xray_unsampled_id_def empty_context_def ustr_def

text \<open>
  An empty context holds no span, so its current span is the invalid one, whose flags
  are 0: the truth test on the context never changes what the sampling test decides.
\<close>

lemma falsy_context_not_sampled:
  "\<not> truthy_context ctx \<Longrightarrow> \<not> sampled (get_current_span ctx)"
  by (simp add: truthy_context_def get_current_span_def INVALID_SPAN_def sampled_def)

text \<open>
  C1. The resolved parent context follows the sampled-wins-first rule. When
  \<^verbatim>\<open>_X_AMZN_TRACE_ID\<close> is set to a non-empty value and the current span of the
  context the X-Ray format extracts from it is sampled, the result is that context,
  whatever the event is, and nothing is logged. In every other case (variable unset,
  empty, or the extracted span not sampled) the result is what the default extractor
  gives for the event, which for an event with a \<^verbatim>\<open>"headers"\<close> entry is the
  globally configured text-map format's extraction from that entry.
\<close>

theorem determine_parent_context_sampled_wins:
  "(env ''_X_AMZN_TRACE_ID'' = Some v \<and> v \<noteq> [] \<and>
      sampled (get_current_span (xray_extract lib [(TRACE_HEADER_KEY, v)]))
      \<longrightarrow> determine_parent_context lib env ev
            = ([], Inr (xray_extract lib [(TRACE_HEADER_KEY, v)])))
   \<and> ((\<forall>x. env ''_X_AMZN_TRACE_ID'' = Some x \<longrightarrow>
          x = [] \<or> \<not> sampled (get_current_span (xray_extract lib [(TRACE_HEADER_KEY, x)])))
      \<longrightarrow> determine_parent_context lib env ev = default_event_context_extractor lib ev)
   \<and> (ev = PDict kvs \<and> map_of kvs (PStr (ustr ''headers'')) = Some h
      \<longrightarrow> default_event_context_extractor lib ev = ([], textmap_extract lib h))"
proof (intro conjI impI)
  assume a: "env ''_X_AMZN_TRACE_ID'' = Some v \<and> v \<noteq> [] \<and>
      sampled (get_current_span (xray_extract lib [(TRACE_HEADER_KEY, v)]))"
  then have "truthy_context (xray_extract lib [(TRACE_HEADER_KEY, v)])"
    using falsy_context_not_sampled by blast
  with a show "determine_parent_context lib env ev
            = ([], Inr (xray_extract lib [(TRACE_HEADER_KEY, v)]))"
    by (simp add: determine_parent_context_def)
next
  assume "\<forall>x. env ''_X_AMZN_TRACE_ID'' = Some x \<longrightarrow>
          x = [] \<or> \<not> sampled (get_current_span (xray_extract lib [(TRACE_HEADER_KEY, x)]))"
  then show "determine_parent_context lib env ev = default_event_context_extractor lib ev"
    by (cases "env ''_X_AMZN_TRACE_ID''") (auto simp: determine_parent_context_def)
next
  assume "ev = PDict kvs \<and> map_of kvs (PStr (ustr ''headers'')) = Some h"
  then show "default_event_context_extractor lib ev = ([], textmap_extract lib h)"
    by (simp add: default_event_context_extractor_def)
qed

text \<open>
  The same event, carrying a \<^verbatim>\<open>traceparent\<close> header, under a sampled and under an
  unsampled X-Ray trace id: the first parent is X-Ray's span, the second the header's.
\<close>

theorem determine_parent_context_sampled_wins_witness:
  "determine_parent_context lib_ex env_xray event_ex
     = ([], Inr \<lparr>current_span = Some \<lparr>trace_id = 1, span_id = 2, trace_flags = 1\<rparr>,
                 entries = []\<rparr>)
   \<and> determine_parent_context lib_ex env_xray_unsampled event_ex
     = ([], Inr \<lparr>current_span = Some \<lparr>trace_id = 7, span_id = 8, trace_flags = 1\<rparr>,
                 entries = []\<rparr>)"
  using determine_parent_context_sampled_wins
          [where env = env_xray and v = xray_sampled_id and lib = lib_ex and ev = event_ex
             and kvs = "[(PStr (ustr ''headers''),
                 PDict [(PStr (ustr ''traceparent''),
                         PStr (ustr ''00-0af7651916cd43dd8448eb211c80319c-b7ad6b7169203331-01''))])]"
             and h = "PDict [(PStr (ustr ''traceparent''),
                       PStr (ustr ''00-0af7651916cd43dd8448eb211c80319c-b7ad6b7169203331-01''))]"]
        determine_parent_context_sampled_wins
          [where env = env_xray_unsampled and v = xray_sampled_id and lib = lib_ex
             and ev = event_ex
             and kvs = "[(PStr (ustr ''headers''),
                 PDict [(PStr (ustr ''traceparent''),
                         PStr (ustr ''00-0af7651916cd43dd8448eb211c80319c-b7ad6b7169203331-01''))])]"
             and h = "PDict [(PStr (ustr ''traceparent''),
                       PStr (ustr ''00-0af7651916cd43dd8448eb211c80319c-b7ad6b7169203331-01''))]"]
  by (simp add: example_defs TRACE_HEADER_KEY_def get_current_span_def sampled_def)



section \<open>The runs of the decorated function\<close>

lemma default_extractor_log:
  "fst (default_event_context_extractor lib ev) = [] \<or>
   fst (default_event_context_extractor lib ev) = [LogDebug extract_failed_msg]"
  by (simp add: default_event_context_extractor_def split: sum.splits)

lemma determine_parent_context_log:
  "fst (determine_parent_context lib env ev) = [] \<or>
   fst (determine_parent_context lib env ev) = [LogDebug extract_failed_msg]"
  using default_extractor_log [of lib ev]
  by (auto simp: determine_parent_context_def Let_def split: option.splits)

text \<open>The name is there exactly when both attributes are there and are strings.\<close>

lemma handler_name_strs:
  "handler_name h = Inr n \<longleftrightarrow>
     (\<exists>mo na. f_module h = Some (PStr mo) \<and> f_name h = Some (PStr na) \<and> n = mo @ 46 # na)"
proof (cases "f_module h")
  case None
  then show ?thesis by (simp add: handler_name_def)
next
  case (Some mv)
  show ?thesis
  proof (cases "f_name h")
    case None
    with Some show ?thesis by (simp add: handler_name_def)
  next
    case nv: (Some nv)
    with Some show ?thesis
      by (cases mv; cases nv) (auto simp: handler_name_def join_def ustr_def)
  qed
qed

lemma handler_name_error:
  "handler_name h = Inl e \<Longrightarrow> e = AttributeError \<or> e = TypeError"
  by (auto simp: handler_name_def join_def split: option.splits)

text \<open>The runs of the wrapper, one equation per way through it.\<close>

lemma otel_wrapper_name_fails:
  assumes "handler_name (hp (w_wrapped w)) = Inl e"
  shows "otel_wrapper lib m env hp w args kw = ([], Inl e)"
  using assms by (simp add: otel_wrapper_def)

lemma otel_wrapper_no_args:
  assumes "handler_name (hp (w_wrapped w)) = Inr n"
  shows "otel_wrapper lib m env hp w [] kw = ([], Inl IndexError)"
  using assms by (simp add: otel_wrapper_def arg_at_def)

lemma otel_wrapper_extract_raises:
  assumes "handler_name (hp (w_wrapped w)) = Inr n"
    and "args \<noteq> []" "snd (determine_parent_context lib env (hd args)) = Inl e"
  shows "otel_wrapper lib m env hp w args kw =
           (fst (determine_parent_context lib env (hd args)), Inl e)"
  using assms
  by (cases args; cases "determine_parent_context lib env (hd args)")
     (simp_all add: otel_wrapper_def arg_at_def)

lemma otel_wrapper_in_span:
  assumes "handler_name (hp (w_wrapped w)) = Inr n"
    and "args \<noteq> []" "snd (determine_parent_context lib env (hd args)) = Inr ctx"
  shows "otel_wrapper lib m env hp w args kw =
           (fst (determine_parent_context lib env (hd args))
              @ StartSpan n ctx SERVER
              # fst (span_body lib env (hp (w_wrapped w)) n ctx args kw)
              @ (case snd (span_body lib env (hp (w_wrapped w)) n ctx args kw) of
                   Inl e \<Rightarrow> [EndSpan (Some e)]
                 | Inr r \<Rightarrow> EndSpan None # fst (flush_and_return lib m r)),
            case snd (span_body lib env (hp (w_wrapped w)) n ctx args kw) of
              Inl e \<Rightarrow> Inl e
            | Inr r \<Rightarrow> snd (flush_and_return lib m r))"
  using assms
  by (cases args; cases "determine_parent_context lib env (hd args)")
     (simp_all add: otel_wrapper_def arg_at_def Let_def split: sum.splits prod.splits)

text \<open>
  Before a handler call, a started span or an attribute call, the name was found and
  there was a first argument.
\<close>

lemma trace_nonempty:
  assumes "fst (otel_wrapper lib m env hp w args kw) \<noteq> []"
  shows "args \<noteq> [] \<and> (\<exists>n. handler_name (hp (w_wrapped w)) = Inr n)"
proof (cases "handler_name (hp (w_wrapped w))")
  case (Inl e)
  with assms show ?thesis by (simp add: otel_wrapper_name_fails)
next
  case (Inr n)
  with assms show ?thesis by (cases args) (auto simp: otel_wrapper_no_args)
qed

lemma flush_and_return_events:
  "filter is_handler_call (fst (flush_and_return lib m r)) = []
   \<and> filter is_set_attribute (fst (flush_and_return lib m r)) = []
   \<and> span_names (fst (flush_and_return lib m r)) = []
   \<and> (fst (flush_and_return lib m r) = []
        \<or> fst (flush_and_return lib m r) = [ForceFlush (flush_timeout m)])"
  by (simp add: flush_and_return_def split: option.splits)

lemma set_faas_attributes_events:
  "filter is_set_attribute (fst (set_faas_attributes env args)) = fst (set_faas_attributes env args)
   \<and> filter is_handler_call (fst (set_faas_attributes env args)) = []
   \<and> filter is_force_flush (fst (set_faas_attributes env args)) = []
   \<and> span_names (fst (set_faas_attributes env args)) = []"
  by (simp add: set_faas_attributes_def split: sum.splits)

lemma set_faas_attributes_ok:
  assumes "1 < length args"
    and "getattr (args ! 1) ''aws_request_id'' = Inr rid"
    and "getattr (args ! 1) ''invoked_function_arn'' = Inr arn"
  shows "set_faas_attributes env args =
           ([SetAttribute ''faas.execution'' rid,
             SetAttribute ''faas.id'' arn,
             SetAttribute ''faas.name'' (environ_get env ''AWS_LAMBDA_FUNCTION_NAME''),
             SetAttribute ''faas.version'' (environ_get env ''AWS_LAMBDA_FUNCTION_VERSION'')],
            None)"
  using assms by (simp add: set_faas_attributes_def arg_at_def FAAS_EXECUTION_def)

lemma span_body_handler_called:
  "HandlerCall a k \<in> set (fst (span_body lib env h name ctx args kw)) \<Longrightarrow>
     a = args \<and> k = kw
     \<and> filter is_handler_call (fst (span_body lib env h name ctx args kw)) = [HandlerCall args kw]
     \<and> snd (span_body lib env h name ctx args kw) = f_call h args kw"
  using set_faas_attributes_events [of env args]
  by (auto simp: span_body_def Let_def set_faas_attributes_def FAAS_EXECUTION_def
      split: if_splits option.splits prod.splits sum.splits)

lemma flush_and_return_member:
  "x \<in> set (fst (flush_and_return lib m r)) \<Longrightarrow> x = ForceFlush (flush_timeout m)"
  by (auto simp: flush_and_return_def split: option.splits)

lemma set_faas_attributes_ok_iff:
  "snd (set_faas_attributes env args) = None \<longleftrightarrow>
     1 < length args \<and> \<not> isl (getattr (args ! 1) ''aws_request_id'')
     \<and> \<not> isl (getattr (args ! 1) ''invoked_function_arn'')"
  by (simp add: set_faas_attributes_def arg_at_def split: sum.splits)

lemma span_body_reaches_handler:
  "HandlerCall args kw \<in> set (fst (span_body lib env h name ctx args kw)) \<longleftrightarrow>
     (is_recording lib name ctx SERVER \<longrightarrow> snd (set_faas_attributes env args) = None)"
  using set_faas_attributes_events [of env args]
  by (cases "set_faas_attributes env args")
     (auto simp: span_body_def filter_empty_conv split: option.splits)

lemma span_body_raises_without_handler:
  "HandlerCall args kw \<notin> set (fst (span_body lib env h name ctx args kw)) \<Longrightarrow>
     isl (snd (span_body lib env h name ctx args kw))"
  by (cases "set_faas_attributes env args")
     (auto simp: span_body_def split: option.splits if_splits)

lemma handler_called_once:
  assumes hc: "HandlerCall a k \<in> set (fst (otel_wrapper lib m env hp w args kw))"
  shows "a = args \<and> k = kw
      \<and> filter is_handler_call (fst (otel_wrapper lib m env hp w args kw)) = [HandlerCall args kw]
      \<and> snd (otel_wrapper lib m env hp w args kw) =
          (case f_call (hp (w_wrapped w)) args kw of
             Inl e \<Rightarrow> Inl e
           | Inr v \<Rightarrow> snd (flush_and_return lib m v))"
proof -
  from hc have "fst (otel_wrapper lib m env hp w args kw) \<noteq> []" by auto
  from trace_nonempty [OF this] obtain n where
    ne: "args \<noteq> []" and n: "handler_name (hp (w_wrapped w)) = Inr n"
    by blast
  note l = determine_parent_context_log [of lib env "hd args"]
  show ?thesis
  proof (cases "snd (determine_parent_context lib env (hd args))")
    case (Inl e)
    from hc l show ?thesis
      unfolding otel_wrapper_extract_raises [where hp = hp and w = w, OF n ne Inl] by auto
  next
    case (Inr ctx)
    let ?b = "span_body lib env (hp (w_wrapped w)) n ctx args kw"
    from hc l have "HandlerCall a k \<in> set (fst ?b)"
      unfolding otel_wrapper_in_span [where hp = hp and w = w, OF n ne Inr]
      by (auto split: sum.splits dest: flush_and_return_member)
    from span_body_handler_called [OF this] l show ?thesis
      unfolding otel_wrapper_in_span [where hp = hp and w = w, OF n ne Inr]
      using flush_and_return_events [of lib m]
      by (auto split: sum.splits)
  qed
qed

lemma handler_reached_iff:
  "HandlerCall args kw \<in> set (fst (otel_wrapper lib m env hp w args kw)) \<longleftrightarrow>
     (\<exists>n ctx. handler_name (hp (w_wrapped w)) = Inr n \<and> args \<noteq> []
        \<and> snd (determine_parent_context lib env (hd args)) = Inr ctx
        \<and> (is_recording lib n ctx SERVER \<longrightarrow> snd (set_faas_attributes env args) = None))"
proof (cases "handler_name (hp (w_wrapped w))")
  case (Inl e)
  then show ?thesis by (simp add: otel_wrapper_name_fails)
next
  case n: (Inr n)
  show ?thesis
  proof (cases "args = []")
    case True
    with n show ?thesis by (simp add: otel_wrapper_no_args)
  next
    case ne: False
    note l = determine_parent_context_log [of lib env "hd args"]
    show ?thesis
    proof (cases "snd (determine_parent_context lib env (hd args))")
      case (Inl e)
      with l n ne show ?thesis
        unfolding otel_wrapper_extract_raises [where hp = hp and w = w, OF n ne Inl] by auto
    next
      case (Inr ctx)
      have "HandlerCall args kw \<in> set (fst (otel_wrapper lib m env hp w args kw)) \<longleftrightarrow>
            HandlerCall args kw \<in> set (fst (span_body lib env (hp (w_wrapped w)) n ctx args kw))"
        unfolding otel_wrapper_in_span [where hp = hp and w = w, OF n ne Inr]
        using l by (auto split: sum.splits dest: flush_and_return_member)
      with n ne Inr show ?thesis
        by (simp add: span_body_reaches_handler)
    qed
  qed
qed

lemma not_reached_raises:
  assumes "HandlerCall args kw \<notin> set (fst (otel_wrapper lib m env hp w args kw))"
  shows "isl (snd (otel_wrapper lib m env hp w args kw))"
proof (cases "handler_name (hp (w_wrapped w))")
  case (Inl e)
  then show ?thesis by (simp add: otel_wrapper_name_fails)
next
  case n: (Inr n)
  show ?thesis
  proof (cases "args = []")
    case True
    with n show ?thesis by (simp add: otel_wrapper_no_args)
  next
    case ne: False
    show ?thesis
    proof (cases "snd (determine_parent_context lib env (hd args))")
      case (Inl e)
      show ?thesis
        unfolding otel_wrapper_extract_raises [where hp = hp and w = w, OF n ne Inl] by simp
    next
      case (Inr ctx)
      from assms have "HandlerCall args kw
          \<notin> set (fst (span_body lib env (hp (w_wrapped w)) n ctx args kw))"
        unfolding otel_wrapper_in_span [where hp = hp and w = w, OF n ne Inr] by simp
      from span_body_raises_without_handler [OF this] show ?thesis
        unfolding otel_wrapper_in_span [where hp = hp and w = w, OF n ne Inr] by (auto split: sum.splits)
    qed
  qed
qed

text \<open>
  C3, as the code has it. Whenever the wrapper gets as far as calling the original
  handler, it calls it exactly once, with the positional and keyword arguments it was
  given. An exception of the handler goes to the caller as it is. A value the handler
  returns is what the wrapper returns when the flush that follows returns; when the
  provider has no \<^verbatim>\<open>force_flush\<close> or its \<^verbatim>\<open>force_flush\<close> raises, the caller gets
  that exception in place of the value. The handler is called exactly when its
  \<^verbatim>\<open>__module__\<close> and \<^verbatim>\<open>__name__\<close> are strings, there is a first positional argument,
  the parent context is extracted without an exception and, if the span is recording,
  the second positional argument exists and has the attributes \<^verbatim>\<open>aws_request_id\<close> and
  \<^verbatim>\<open>invoked_function_arn\<close>; in every other run the wrapper raises and the handler is
  never called.
\<close>

theorem otel_wrapper_passes_result_through:
  "(HandlerCall a k \<in> set (fst (otel_wrapper lib m env hp w args kw)) \<longrightarrow>
      a = args \<and> k = kw
      \<and> filter is_handler_call (fst (otel_wrapper lib m env hp w args kw)) = [HandlerCall args kw]
      \<and> (f_call (hp (w_wrapped w)) args kw = Inl e
           \<longrightarrow> snd (otel_wrapper lib m env hp w args kw) = Inl e)
      \<and> (f_call (hp (w_wrapped w)) args kw = Inr v \<and> force_flush lib = Some flush
           \<and> flush (flush_timeout m) = None
           \<longrightarrow> snd (otel_wrapper lib m env hp w args kw) = Inr v)
      \<and> (f_call (hp (w_wrapped w)) args kw = Inr v \<and> force_flush lib = Some flush
           \<and> flush (flush_timeout m) = Some e'
           \<longrightarrow> snd (otel_wrapper lib m env hp w args kw) = Inl e')
      \<and> (f_call (hp (w_wrapped w)) args kw = Inr v \<and> force_flush lib = None
           \<longrightarrow> snd (otel_wrapper lib m env hp w args kw) = Inl AttributeError))
   \<and> (HandlerCall args kw \<in> set (fst (otel_wrapper lib m env hp w args kw)) \<longleftrightarrow>
        (\<exists>mo na ctx. f_module (hp (w_wrapped w)) = Some (PStr mo)
           \<and> f_name (hp (w_wrapped w)) = Some (PStr na) \<and> args \<noteq> []
           \<and> snd (determine_parent_context lib env (hd args)) = Inr ctx
           \<and> (is_recording lib (mo @ ustr ''.'' @ na) ctx SERVER
                \<longrightarrow> 1 < length args \<and> \<not> isl (getattr (args ! 1) ''aws_request_id'')
                    \<and> \<not> isl (getattr (args ! 1) ''invoked_function_arn''))))
   \<and> (HandlerCall args kw \<notin> set (fst (otel_wrapper lib m env hp w args kw))
        \<longrightarrow> isl (snd (otel_wrapper lib m env hp w args kw)))"
proof (intro conjI)
  show "HandlerCall a k \<in> set (fst (otel_wrapper lib m env hp w args kw)) \<longrightarrow>
      a = args \<and> k = kw
      \<and> filter is_handler_call (fst (otel_wrapper lib m env hp w args kw)) = [HandlerCall args kw]
      \<and> (f_call (hp (w_wrapped w)) args kw = Inl e
           \<longrightarrow> snd (otel_wrapper lib m env hp w args kw) = Inl e)
      \<and> (f_call (hp (w_wrapped w)) args kw = Inr v \<and> force_flush lib = Some flush
           \<and> flush (flush_timeout m) = None
           \<longrightarrow> snd (otel_wrapper lib m env hp w args kw) = Inr v)
      \<and> (f_call (hp (w_wrapped w)) args kw = Inr v \<and> force_flush lib = Some flush
           \<and> flush (flush_timeout m) = Some e'
           \<longrightarrow> snd (otel_wrapper lib m env hp w args kw) = Inl e')
      \<and> (f_call (hp (w_wrapped w)) args kw = Inr v \<and> force_flush lib = None
           \<longrightarrow> snd (otel_wrapper lib m env hp w args kw) = Inl AttributeError)"
    using handler_called_once [of a k lib m env hp w args kw]
    by (auto simp: flush_and_return_def)
next
  show "HandlerCall args kw \<in> set (fst (otel_wrapper lib m env hp w args kw)) \<longleftrightarrow>
        (\<exists>mo na ctx. f_module (hp (w_wrapped w)) = Some (PStr mo)
           \<and> f_name (hp (w_wrapped w)) = Some (PStr na) \<and> args \<noteq> []
           \<and> snd (determine_parent_context lib env (hd args)) = Inr ctx
           \<and> (is_recording lib (mo @ ustr ''.'' @ na) ctx SERVER
                \<longrightarrow> 1 < length args \<and> \<not> isl (getattr (args ! 1) ''aws_request_id'')
                    \<and> \<not> isl (getattr (args ! 1) ''invoked_function_arn'')))"
    unfolding handler_reached_iff handler_name_strs set_faas_attributes_ok_iff
    by (auto simp: ustr_def)
next
  show "HandlerCall args kw \<notin> set (fst (otel_wrapper lib m env hp w args kw))
        \<longrightarrow> isl (snd (otel_wrapper lib m env hp w args kw))"
    using not_reached_raises [of args kw lib m env hp w] by blast
qed

lemmas model_defs =
  otel_wrapper_def otel_handler_def handler_name_def join_def flush_and_return_def
  span_body_def set_faas_attributes_def determine_parent_context_def
  default_event_context_extractor_def arg_at_def environ_get_def FAAS_EXECUTION_def
  TRACE_HEADER_KEY_def get_current_span_def sampled_def truthy_context_def
  INVALID_SPAN_def Let_def

text \<open>
  A returning and a raising handler on an API Gateway event and a Lambda context, the
  returning handler under a provider without \<^verbatim>\<open>force_flush\<close> and under one whose
  flush raises, and a \<^verbatim>\<open>functools.partial\<close> as the handler.
\<close>

theorem otel_wrapper_passes_result_through_witness:
  "HandlerCall [event_ex, lambda_context_ex] []
     \<in> set (fst (otel_wrapper lib_ex module_ex env_lambda heap_ok (otel_handler heap_ok 0)
                   [event_ex, lambda_context_ex] []))
   \<and> snd (otel_wrapper lib_ex module_ex env_lambda heap_ok (otel_handler heap_ok 0)
            [event_ex, lambda_context_ex] []) = Inr (PStr (ustr ''200 OK''))
   \<and> snd (otel_wrapper lib_ex module_ex env_lambda heap_raises (otel_handler heap_raises 0)
            [event_ex, lambda_context_ex] []) = Inl (Raised ''RuntimeError'' (ustr ''boom''))
   \<and> snd (otel_wrapper lib_no_flush module_ex env_lambda heap_ok (otel_handler heap_ok 0)
            [event_ex, lambda_context_ex] []) = Inl AttributeError
   \<and> snd (otel_wrapper lib_flush_raises module_ex env_lambda heap_ok (otel_handler heap_ok 0)
            [event_ex, lambda_context_ex] []) = Inl (Raised ''RuntimeError'' (ustr ''export''))
   \<and> otel_wrapper lib_ex module_ex env_lambda heap_partial (otel_handler heap_partial 0)
        [event_ex, lambda_context_ex] [] = ([], Inl AttributeError)"
  using otel_wrapper_passes_result_through
          [where a = "[event_ex, lambda_context_ex]" and k = "[]" and lib = lib_ex
             and m = module_ex and env = env_lambda and hp = heap_ok
             and w = "otel_handler heap_ok 0" and args = "[event_ex, lambda_context_ex]"
             and kw = "[]" and e = AttributeError and v = "PStr (ustr ''200 OK'')"
             and flush = flush_ok and e' = AttributeError]
        otel_wrapper_passes_result_through
          [where a = "[event_ex, lambda_context_ex]" and k = "[]" and lib = lib_ex
             and m = module_ex and env = env_lambda and hp = heap_raises
             and w = "otel_handler heap_raises 0" and args = "[event_ex, lambda_context_ex]"
             and kw = "[]" and e = "Raised ''RuntimeError'' (ustr ''boom'')"
             and v = "PStr (ustr ''200 OK'')" and flush = flush_ok and e' = AttributeError]
        otel_wrapper_passes_result_through
          [where a = "[event_ex, lambda_context_ex]" and k = "[]" and lib = lib_no_flush
             and m = module_ex and env = env_lambda and hp = heap_ok
             and w = "otel_handler heap_ok 0" and args = "[event_ex, lambda_context_ex]"
             and kw = "[]" and e = AttributeError and v = "PStr (ustr ''200 OK'')"
             and flush = flush_ok and e' = AttributeError]
        otel_wrapper_passes_result_through
          [where a = "[event_ex, lambda_context_ex]" and k = "[]" and lib = lib_flush_raises
             and m = module_ex and env = env_lambda and hp = heap_ok
             and w = "otel_handler heap_ok 0" and args = "[event_ex, lambda_context_ex]"
             and kw = "[]" and e = AttributeError and v = "PStr (ustr ''200 OK'')"
             and flush = flush_fails and e' = "Raised ''RuntimeError'' (ustr ''export'')"]
        otel_wrapper_passes_result_through
          [where a = "[event_ex, lambda_context_ex]" and k = "[]" and lib = lib_ex
             and m = module_ex and env = env_lambda and hp = heap_partial
             and w = "otel_handler heap_partial 0" and args = "[event_ex, lambda_context_ex]"
             and kw = "[]" and e = AttributeError and v = "PStr (ustr ''200 OK'')"
             and flush = flush_ok and e' = AttributeError]
  by (simp add: example_defs model_defs)

text \<open>
  C3 as stated, for every argument list, fails: called as \<^verbatim>\<open>handler(event, None)\<close>
  the original handler returns \<^verbatim>\<open>"200 OK"\<close>, and the decorated one, with a recording
  span, raises \<^verbatim>\<open>AttributeError\<close> and never calls it.
\<close>

theorem otel_wrapper_identity_counterexample:
  "f_call (heap_ok 0) [event_ex, PNone] [] = Inr (PStr (ustr ''200 OK''))
   \<and> otel_wrapper lib_ex module_ex env_lambda heap_ok (otel_handler heap_ok 0)
        [event_ex, PNone] []
     = ([StartSpan (ustr ''app.lambda_handler'')
           \<lparr>current_span = Some \<lparr>trace_id = 7, span_id = 8, trace_flags = 1\<rparr>, entries = []\<rparr>
           SERVER,
         EndSpan (Some AttributeError)],
        Inl AttributeError)"
  by (simp add: example_defs model_defs)

section \<open>The flush\<close>

text \<open>
  C2. The claim asks for exactly one \<^verbatim>\<open>force_flush\<close> after the handler call on the
  returning and on the raising path. The code flushes after the \<^verbatim>\<open>with\<close> block with no
  \<^verbatim>\<open>try\<close>/\<^verbatim>\<open>finally\<close>, so a handler that raises leaves the wrapper before the
  flush: on this invocation the span is closed with the exception and there is no
  flush at all.
\<close>

theorem force_flush_skipped_when_handler_raises:
  "otel_wrapper lib_ex module_ex env_lambda heap_raises (otel_handler heap_raises 0)
     [event_ex, lambda_context_ex] []
   = ([StartSpan (ustr ''app.lambda_handler'')
         \<lparr>current_span = Some \<lparr>trace_id = 7, span_id = 8, trace_flags = 1\<rparr>, entries = []\<rparr>
         SERVER,
       SetAttribute ''faas.execution'' (PStr (ustr ''req-1'')),
       SetAttribute ''faas.id''
         (PStr (ustr ''arn:aws:lambda:us-east-1:123456789012:function:f'')),
       SetAttribute ''faas.name'' (PStr (ustr ''f'')),
       SetAttribute ''faas.version'' (PStr (ustr ''7'')),
       HandlerCall [event_ex, lambda_context_ex] [],
       EndSpan (Some (Raised ''RuntimeError'' (ustr ''boom'')))],
      Inl (Raised ''RuntimeError'' (ustr ''boom'')))
   \<and> filter is_force_flush
        (fst (otel_wrapper lib_ex module_ex env_lambda heap_raises (otel_handler heap_raises 0)
                [event_ex, lambda_context_ex] [])) = []"
  by (simp add: example_defs model_defs)

text \<open>
  The two paths in general: a wrapper that returns has called \<^verbatim>\<open>force_flush\<close> exactly
  once, as its last action and after the handler call, with the module's timeout; a
  run in which the handler raises has no flush.
\<close>

lemma span_body_no_flush:
  "filter is_force_flush (fst (span_body lib env h name ctx args kw)) = []"
  using set_faas_attributes_events [of env args]
  by (auto simp: span_body_def split: prod.splits option.splits)

lemma force_flush_once_on_return:
  assumes "snd (otel_wrapper lib m env hp w args kw) = Inr r"
  shows "filter is_force_flush (fst (otel_wrapper lib m env hp w args kw))
           = [ForceFlush (flush_timeout m)]
         \<and> last (fst (otel_wrapper lib m env hp w args kw)) = ForceFlush (flush_timeout m)
         \<and> HandlerCall args kw \<in> set (butlast (fst (otel_wrapper lib m env hp w args kw)))"
proof -
  from assms not_reached_raises [of args kw lib m env hp w]
  have hc: "HandlerCall args kw \<in> set (fst (otel_wrapper lib m env hp w args kw))"
    by auto
  then have "fst (otel_wrapper lib m env hp w args kw) \<noteq> []" by auto
  from trace_nonempty [OF this] obtain n where
    ne: "args \<noteq> []" and n: "handler_name (hp (w_wrapped w)) = Inr n"
    by blast
  note l = determine_parent_context_log [of lib env "hd args"]
  show ?thesis
  proof (cases "snd (determine_parent_context lib env (hd args))")
    case (Inl e)
    with assms show ?thesis
      unfolding otel_wrapper_extract_raises [where hp = hp and w = w, OF n ne Inl] by simp
  next
    case (Inr ctx)
    let ?b = "span_body lib env (hp (w_wrapped w)) n ctx args kw"
    from assms obtain v where s: "snd ?b = Inr v" and f: "snd (flush_and_return lib m v) = Inr r"
      unfolding otel_wrapper_in_span [where hp = hp and w = w, OF n ne Inr] by (auto split: sum.splits)
    from f have fl: "fst (flush_and_return lib m v) = [ForceFlush (flush_timeout m)]"
      by (auto simp: flush_and_return_def split: option.splits)
    from s have h: "HandlerCall args kw \<in> set (fst ?b)"
      by (auto simp: span_body_def split: prod.splits option.splits)
    from s h l fl span_body_no_flush [of lib env "hp (w_wrapped w)" n ctx args kw]
    show ?thesis
      unfolding otel_wrapper_in_span [where hp = hp and w = w, OF n ne Inr]
      by (auto simp: butlast_append)
  qed
qed

lemma no_force_flush_when_handler_raises:
  assumes hc: "HandlerCall args kw \<in> set (fst (otel_wrapper lib m env hp w args kw))"
    and r: "f_call (hp (w_wrapped w)) args kw = Inl e"
  shows "filter is_force_flush (fst (otel_wrapper lib m env hp w args kw)) = []"
proof -
  from hc have "fst (otel_wrapper lib m env hp w args kw) \<noteq> []" by auto
  from trace_nonempty [OF this] obtain n where
    ne: "args \<noteq> []" and n: "handler_name (hp (w_wrapped w)) = Inr n"
    by blast
  note l = determine_parent_context_log [of lib env "hd args"]
  show ?thesis
  proof (cases "snd (determine_parent_context lib env (hd args))")
    case (Inl x)
    with l show ?thesis
      unfolding otel_wrapper_extract_raises [where hp = hp and w = w, OF n ne Inl] by auto
  next
    case (Inr ctx)
    let ?b = "span_body lib env (hp (w_wrapped w)) n ctx args kw"
    from hc l have "HandlerCall args kw \<in> set (fst ?b)"
      unfolding otel_wrapper_in_span [where hp = hp and w = w, OF n ne Inr]
      by (auto split: sum.splits dest: flush_and_return_member)
    from span_body_handler_called [OF this] r have "snd ?b = Inl e" by simp
    with l span_body_no_flush [of lib env "hp (w_wrapped w)" n ctx args kw]
    show ?thesis
      unfolding otel_wrapper_in_span [where hp = hp and w = w, OF n ne Inr] by auto
  qed
qed

section \<open>The span and its attributes\<close>

lemma span_body_no_start:
  "StartSpan n c kd \<notin> set (fst (span_body lib env h name ctx args kw))"
  by (auto simp: span_body_def set_faas_attributes_def split: prod.splits option.splits sum.splits if_splits)

lemma span_started:
  assumes "StartSpan n c kd \<in> set (fst (otel_wrapper lib m env hp w args kw))"
  shows "args \<noteq> [] \<and> snd (determine_parent_context lib env (hd args)) = Inr c
         \<and> handler_name (hp (w_wrapped w)) = Inr n \<and> kd = SERVER"
proof -
  from assms have "fst (otel_wrapper lib m env hp w args kw) \<noteq> []" by auto
  from trace_nonempty [OF this] obtain n' where
    ne: "args \<noteq> []" and n: "handler_name (hp (w_wrapped w)) = Inr n'"
    by blast
  note l = determine_parent_context_log [of lib env "hd args"]
  show ?thesis
  proof (cases "snd (determine_parent_context lib env (hd args))")
    case (Inl e)
    from assms l show ?thesis
      unfolding otel_wrapper_extract_raises [where hp = hp and w = w, OF n ne Inl] by auto
  next
    case (Inr ctx)
    from assms l span_body_no_start [of n c kd lib env "hp (w_wrapped w)" n' ctx args kw]
    have "n = n' \<and> c = ctx \<and> kd = SERVER"
      unfolding otel_wrapper_in_span [where hp = hp and w = w, OF n ne Inr]
      by (auto split: sum.splits dest: flush_and_return_member)
    with ne Inr n show ?thesis by simp
  qed
qed

text \<open>
  C6, as the code has it. The name of the span is the wrapped handler's
  \<^verbatim>\<open>__module__\<close>, a dot and its \<^verbatim>\<open>__name__\<close>, read from the handler at the call.
  So two invocations of one decorated function give the same name whenever these two
  attributes are at the second call what they were at decoration, and the name is then
  the one \<^verbatim>\<open>functools.wraps\<close> copied at decoration time.
\<close>

theorem span_name_read_at_each_call:
  "(StartSpan n c kd \<in> set (fst (otel_wrapper lib m env hp w args kw)) \<longrightarrow>
      (\<exists>mo na. f_module (hp (w_wrapped w)) = Some (PStr mo)
         \<and> f_name (hp (w_wrapped w)) = Some (PStr na) \<and> n = mo @ ustr ''.'' @ na))
   \<and> (f_module (hp' r) = f_module (hp r) \<and> f_name (hp' r) = f_name (hp r)
      \<and> StartSpan nfst cfst kfst
           \<in> set (fst (otel_wrapper lib m env hp (otel_handler hp r) args kw))
      \<and> StartSpan nsnd csnd ksnd
           \<in> set (fst (otel_wrapper lib' m' env' hp' (otel_handler hp r) args' kw'))
      \<longrightarrow> nsnd = nfst \<and>
          (\<exists>mo na. w_module (otel_handler hp r) = Some (PStr mo)
             \<and> w_name (otel_handler hp r) = Some (PStr na) \<and> nfst = mo @ ustr ''.'' @ na))"
  using span_started [of n c kd lib m env hp w args kw]
        span_started [of nfst cfst kfst lib m env hp "otel_handler hp r" args kw]
        span_started [of nsnd csnd ksnd lib' m' env' hp' "otel_handler hp r" args' kw']
  by (auto simp: otel_handler_def handler_name_strs ustr_def)

theorem span_name_read_at_each_call_witness:
  "span_names (fst (otel_wrapper lib_ex module_ex env_lambda heap_ok (otel_handler heap_ok 0)
                      [event_ex, lambda_context_ex] [])) = [ustr ''app.lambda_handler'']
   \<and> span_names (fst (otel_wrapper lib_ex module_ex env_xray heap_ok (otel_handler heap_ok 0)
                      [PNone, lambda_context_ex] [])) = [ustr ''app.lambda_handler'']"
  using span_name_read_at_each_call
          [where n = "ustr ''app.lambda_handler''"
             and c = "\<lparr>current_span = Some \<lparr>trace_id = 7, span_id = 8, trace_flags = 1\<rparr>,
                       entries = []\<rparr>"
             and kd = SERVER and lib = lib_ex and m = module_ex and env = env_lambda
             and hp = heap_ok and w = "otel_handler heap_ok 0"
             and args = "[event_ex, lambda_context_ex]" and kw = "[]" and hp' = heap_ok
             and r = 0 and nfst = "ustr ''app.lambda_handler''"
             and cfst = "\<lparr>current_span = Some \<lparr>trace_id = 7, span_id = 8, trace_flags = 1\<rparr>,
                        entries = []\<rparr>"
             and kfst = SERVER and nsnd = "ustr ''app.lambda_handler''"
             and csnd = "\<lparr>current_span = Some \<lparr>trace_id = 1, span_id = 2, trace_flags = 1\<rparr>,
                        entries = []\<rparr>"
             and ksnd = SERVER and lib' = lib_ex and m' = module_ex and env' = env_xray
             and args' = "[PNone, lambda_context_ex]" and kw' = "[]"]
  by (simp add: example_defs model_defs)

text \<open>
  C6 as stated fails: the name is not computed once at decoration time. The function
  decorated while named \<^verbatim>\<open>lambda_handler\<close> gives the span \<^verbatim>\<open>app.lambda_handler\<close> on
  one invocation and, after \<^verbatim>\<open>__name__\<close> of the original is assigned to, the span
  \<^verbatim>\<open>app.renamed\<close> on the next.
\<close>

theorem span_name_decoration_time_counterexample:
  "w_module (otel_handler heap_ok 0) = Some (PStr (ustr ''app''))
   \<and> w_name (otel_handler heap_ok 0) = Some (PStr (ustr ''lambda_handler''))
   \<and> span_names (fst (otel_wrapper lib_ex module_ex env_lambda heap_ok (otel_handler heap_ok 0)
                      [event_ex, lambda_context_ex] [])) = [ustr ''app.lambda_handler'']
   \<and> span_names (fst (otel_wrapper lib_ex module_ex env_lambda heap_renamed (otel_handler heap_ok 0)
                      [event_ex, lambda_context_ex] [])) = [ustr ''app.renamed'']"
  by (simp add: example_defs model_defs)

lemma getattr_error: "getattr v name = Inl e \<Longrightarrow> e = AttributeError"
  by (cases v) (auto split: option.splits)

lemma span_body_recording:
  assumes "is_recording lib name ctx SERVER"
  shows "span_body lib env h name ctx args kw =
           (case snd (set_faas_attributes env args) of
              Some e \<Rightarrow> (fst (set_faas_attributes env args), Inl e)
            | None \<Rightarrow> (fst (set_faas_attributes env args) @ [HandlerCall args kw],
                        f_call h args kw))"
  using assms
  by (cases "set_faas_attributes env args") (simp add: span_body_def split: option.splits)

lemma span_body_not_recording:
  assumes "\<not> is_recording lib name ctx SERVER"
  shows "span_body lib env h name ctx args kw = ([HandlerCall args kw], f_call h args kw)"
  using assms by (simp add: span_body_def)

lemma set_faas_attributes_cases:
  "(snd (set_faas_attributes env args) = None \<and>
      1 < length args \<and>
      (\<exists>rid arn. getattr (args ! 1) ''aws_request_id'' = Inr rid
         \<and> getattr (args ! 1) ''invoked_function_arn'' = Inr arn
         \<and> fst (set_faas_attributes env args) =
             [SetAttribute ''faas.execution'' rid,
              SetAttribute ''faas.id'' arn,
              SetAttribute ''faas.name'' (environ_get env ''AWS_LAMBDA_FUNCTION_NAME''),
              SetAttribute ''faas.version'' (environ_get env ''AWS_LAMBDA_FUNCTION_VERSION'')]))
   \<or> (\<exists>e. snd (set_faas_attributes env args) = Some e)"
  by (auto simp: set_faas_attributes_def arg_at_def FAAS_EXECUTION_def split: sum.splits)

lemma attributes_before_handler:
  assumes hc: "HandlerCall a k \<in> set (fst (otel_wrapper lib m env hp w args kw))"
    and st: "StartSpan n c kd \<in> set (fst (otel_wrapper lib m env hp w args kw))"
    and rc: "is_recording lib n c kd"
  shows "1 < length args \<and>
     (\<exists>rid arn. getattr (args ! 1) ''aws_request_id'' = Inr rid
        \<and> getattr (args ! 1) ''invoked_function_arn'' = Inr arn
        \<and> filter is_set_attribute
             (takeWhile (\<lambda>e. \<not> is_handler_call e) (fst (otel_wrapper lib m env hp w args kw)))
           = [SetAttribute ''faas.execution'' rid,
              SetAttribute ''faas.id'' arn,
              SetAttribute ''faas.name'' (environ_get env ''AWS_LAMBDA_FUNCTION_NAME''),
              SetAttribute ''faas.version'' (environ_get env ''AWS_LAMBDA_FUNCTION_VERSION'')]
        \<and> filter is_set_attribute
             (dropWhile (\<lambda>e. \<not> is_handler_call e) (fst (otel_wrapper lib m env hp w args kw)))
           = [])"
proof -
  from span_started [OF st]
  have ne: "args \<noteq> []" and d: "snd (determine_parent_context lib env (hd args)) = Inr c"
    and n: "handler_name (hp (w_wrapped w)) = Inr n"
    and kd: "kd = SERVER"
    by simp_all
  from rc kd have rc': "is_recording lib n c SERVER"
    by simp
  note l = determine_parent_context_log [of lib env "hd args"]
  note t = otel_wrapper_in_span [where hp = hp and w = w, OF n ne d, of m kw]
  note b = span_body_recording [OF rc', of env "hp (w_wrapped w)" args kw]
  from set_faas_attributes_cases [of env args] show ?thesis
  proof
    assume "snd (set_faas_attributes env args) = None \<and>
      1 < length args \<and>
      (\<exists>rid arn. getattr (args ! 1) ''aws_request_id'' = Inr rid
         \<and> getattr (args ! 1) ''invoked_function_arn'' = Inr arn
         \<and> fst (set_faas_attributes env args) =
             [SetAttribute ''faas.execution'' rid,
              SetAttribute ''faas.id'' arn,
              SetAttribute ''faas.name'' (environ_get env ''AWS_LAMBDA_FUNCTION_NAME''),
              SetAttribute ''faas.version'' (environ_get env ''AWS_LAMBDA_FUNCTION_VERSION'')])"
    then obtain rid arn where
      ok: "snd (set_faas_attributes env args) = None" "1 < length args"
        "getattr (args ! 1) ''aws_request_id'' = Inr rid"
        "getattr (args ! 1) ''invoked_function_arn'' = Inr arn"
        "fst (set_faas_attributes env args) =
             [SetAttribute ''faas.execution'' rid,
              SetAttribute ''faas.id'' arn,
              SetAttribute ''faas.name'' (environ_get env ''AWS_LAMBDA_FUNCTION_NAME''),
              SetAttribute ''faas.version'' (environ_get env ''AWS_LAMBDA_FUNCTION_VERSION'')]"
      by blast
    from l ok show ?thesis
      unfolding t b
      by (auto split: sum.splits simp: flush_and_return_events)
  next
    assume "\<exists>e. snd (set_faas_attributes env args) = Some e"
    then obtain e where f: "snd (set_faas_attributes env args) = Some e" ..
    from hc l set_faas_attributes_events [of env args] have False
      unfolding t b f by (auto simp: filter_empty_conv)
    then show ?thesis ..
  qed
qed

lemma no_attributes_when_not_recording:
  assumes "\<forall>n c kd. StartSpan n c kd \<in> set (fst (otel_wrapper lib m env hp w args kw))
             \<longrightarrow> \<not> is_recording lib n c kd"
  shows "filter is_set_attribute (fst (otel_wrapper lib m env hp w args kw)) = []"
proof (cases "fst (otel_wrapper lib m env hp w args kw) = []")
  case True
  then show ?thesis by simp
next
  case False
  from trace_nonempty [OF this] obtain n where
    ne: "args \<noteq> []" and n: "handler_name (hp (w_wrapped w)) = Inr n"
    by blast
  note l = determine_parent_context_log [of lib env "hd args"]
  show ?thesis
  proof (cases "snd (determine_parent_context lib env (hd args))")
    case (Inl e)
    with l show ?thesis
      unfolding otel_wrapper_extract_raises [where hp = hp and w = w, OF n ne Inl] by auto
  next
    case (Inr ctx)
    from assms have "\<not> is_recording lib n ctx SERVER"
      unfolding otel_wrapper_in_span [where hp = hp and w = w, OF n ne Inr] by simp
    from span_body_not_recording [OF this] l show ?thesis
      unfolding otel_wrapper_in_span [where hp = hp and w = w, OF n ne Inr]
      by (auto split: sum.splits simp: flush_and_return_events)
  qed
qed

lemma set_faas_attributes_failed:
  "snd (set_faas_attributes env args) = Some e \<Longrightarrow>
     length (fst (set_faas_attributes env args)) \<le> 1"
  by (auto simp: set_faas_attributes_def split: sum.splits)

lemma few_attributes_without_handler:
  assumes st: "StartSpan n c kd \<in> set (fst (otel_wrapper lib m env hp w args kw))"
    and rc: "is_recording lib n c kd"
    and nh: "HandlerCall args kw \<notin> set (fst (otel_wrapper lib m env hp w args kw))"
  shows "length (filter is_set_attribute (fst (otel_wrapper lib m env hp w args kw))) \<le> 1
         \<and> isl (snd (otel_wrapper lib m env hp w args kw))"
proof -
  from span_started [OF st]
  have ne: "args \<noteq> []" and d: "snd (determine_parent_context lib env (hd args)) = Inr c"
    and n: "handler_name (hp (w_wrapped w)) = Inr n"
    and kd: "kd = SERVER"
    by simp_all
  from rc kd have rc': "is_recording lib n c SERVER" by simp
  note l = determine_parent_context_log [of lib env "hd args"]
  note t = otel_wrapper_in_span [where hp = hp and w = w, OF n ne d, of m kw]
  note b = span_body_recording [OF rc', of env "hp (w_wrapped w)" args kw]
  from nh obtain e where f: "snd (set_faas_attributes env args) = Some e"
    unfolding t b by (cases "snd (set_faas_attributes env args)") auto
  from set_faas_attributes_failed [OF f] set_faas_attributes_events [of env args] l
  show ?thesis
    unfolding t b f by auto
qed

text \<open>
  C7, as the code has it. In every run in which the handler is invoked under a
  recording span, the attribute calls made before the handler call are exactly four,
  in this order: \<^verbatim>\<open>faas.execution\<close> with the context's \<^verbatim>\<open>aws_request_id\<close>,
  \<^verbatim>\<open>faas.id\<close> with its \<^verbatim>\<open>invoked_function_arn\<close>, \<^verbatim>\<open>faas.name\<close> with
  \<^verbatim>\<open>AWS_LAMBDA_FUNCTION_NAME\<close> and \<^verbatim>\<open>faas.version\<close> with
  \<^verbatim>\<open>AWS_LAMBDA_FUNCTION_VERSION\<close> of the environment; none is made from the handler
  call on. When no recording span is started, no attribute call is made at all. The
  handler is invoked whenever its names are strings, the parent context is extracted
  and the second positional argument has both attributes. A run under a recording span
  that does not invoke the handler makes at most one attribute call and raises.
\<close>

theorem faas_attributes_set_when_recording:
  "(HandlerCall a k \<in> set (fst (otel_wrapper lib m env hp w args kw))
      \<and> StartSpan n c kd \<in> set (fst (otel_wrapper lib m env hp w args kw))
      \<and> is_recording lib n c kd
    \<longrightarrow> 1 < length args \<and>
     (\<exists>rid arn. getattr (args ! 1) ''aws_request_id'' = Inr rid
        \<and> getattr (args ! 1) ''invoked_function_arn'' = Inr arn
        \<and> filter is_set_attribute
             (takeWhile (\<lambda>e. \<not> is_handler_call e) (fst (otel_wrapper lib m env hp w args kw)))
           = [SetAttribute ''faas.execution'' rid,
              SetAttribute ''faas.id'' arn,
              SetAttribute ''faas.name'' (environ_get env ''AWS_LAMBDA_FUNCTION_NAME''),
              SetAttribute ''faas.version'' (environ_get env ''AWS_LAMBDA_FUNCTION_VERSION'')]
        \<and> filter is_set_attribute
             (dropWhile (\<lambda>e. \<not> is_handler_call e) (fst (otel_wrapper lib m env hp w args kw)))
           = []))
   \<and> ((\<forall>n c kd. StartSpan n c kd \<in> set (fst (otel_wrapper lib m env hp w args kw))
             \<longrightarrow> \<not> is_recording lib n c kd)
      \<longrightarrow> filter is_set_attribute (fst (otel_wrapper lib m env hp w args kw)) = [])
   \<and> (f_module (hp (w_wrapped w)) = Some (PStr mo) \<and> f_name (hp (w_wrapped w)) = Some (PStr na)
        \<and> snd (determine_parent_context lib env (hd args)) = Inr ctx
        \<and> 1 < length args \<and> getattr (args ! 1) ''aws_request_id'' = Inr rid'
        \<and> getattr (args ! 1) ''invoked_function_arn'' = Inr arn'
      \<longrightarrow> HandlerCall args kw \<in> set (fst (otel_wrapper lib m env hp w args kw)))
   \<and> (StartSpan n c kd \<in> set (fst (otel_wrapper lib m env hp w args kw))
        \<and> is_recording lib n c kd
        \<and> HandlerCall args kw \<notin> set (fst (otel_wrapper lib m env hp w args kw))
      \<longrightarrow> length (filter is_set_attribute (fst (otel_wrapper lib m env hp w args kw))) \<le> 1
          \<and> isl (snd (otel_wrapper lib m env hp w args kw)))"
proof (intro conjI)
  show "HandlerCall a k \<in> set (fst (otel_wrapper lib m env hp w args kw))
      \<and> StartSpan n c kd \<in> set (fst (otel_wrapper lib m env hp w args kw))
      \<and> is_recording lib n c kd
    \<longrightarrow> 1 < length args \<and>
     (\<exists>rid arn. getattr (args ! 1) ''aws_request_id'' = Inr rid
        \<and> getattr (args ! 1) ''invoked_function_arn'' = Inr arn
        \<and> filter is_set_attribute
             (takeWhile (\<lambda>e. \<not> is_handler_call e) (fst (otel_wrapper lib m env hp w args kw)))
           = [SetAttribute ''faas.execution'' rid,
              SetAttribute ''faas.id'' arn,
              SetAttribute ''faas.name'' (environ_get env ''AWS_LAMBDA_FUNCTION_NAME''),
              SetAttribute ''faas.version'' (environ_get env ''AWS_LAMBDA_FUNCTION_VERSION'')]
        \<and> filter is_set_attribute
             (dropWhile (\<lambda>e. \<not> is_handler_call e) (fst (otel_wrapper lib m env hp w args kw)))
           = [])"
    using attributes_before_handler [of a k lib m env hp w args kw n c kd] by blast
next
  show "(\<forall>n c kd. StartSpan n c kd \<in> set (fst (otel_wrapper lib m env hp w args kw))
             \<longrightarrow> \<not> is_recording lib n c kd)
      \<longrightarrow> filter is_set_attribute (fst (otel_wrapper lib m env hp w args kw)) = []"
    using no_attributes_when_not_recording [of lib m env hp w args kw] by blast
next
  show "f_module (hp (w_wrapped w)) = Some (PStr mo) \<and> f_name (hp (w_wrapped w)) = Some (PStr na)
        \<and> snd (determine_parent_context lib env (hd args)) = Inr ctx
        \<and> 1 < length args \<and> getattr (args ! 1) ''aws_request_id'' = Inr rid'
        \<and> getattr (args ! 1) ''invoked_function_arn'' = Inr arn'
      \<longrightarrow> HandlerCall args kw \<in> set (fst (otel_wrapper lib m env hp w args kw))"
  proof (rule impI)
    assume h: "f_module (hp (w_wrapped w)) = Some (PStr mo)
        \<and> f_name (hp (w_wrapped w)) = Some (PStr na)
        \<and> snd (determine_parent_context lib env (hd args)) = Inr ctx
        \<and> 1 < length args \<and> getattr (args ! 1) ''aws_request_id'' = Inr rid'
        \<and> getattr (args ! 1) ''invoked_function_arn'' = Inr arn'"
    then have ne: "args \<noteq> []" by auto
    from h have n: "handler_name (hp (w_wrapped w)) = Inr (mo @ 46 # na)"
      by (simp add: handler_name_strs)
    from h have "snd (set_faas_attributes env args) = None"
      by (simp add: set_faas_attributes_ok)
    with h ne n show "HandlerCall args kw \<in> set (fst (otel_wrapper lib m env hp w args kw))"
      unfolding handler_reached_iff by blast
  qed
next
  show "StartSpan n c kd \<in> set (fst (otel_wrapper lib m env hp w args kw))
        \<and> is_recording lib n c kd
        \<and> HandlerCall args kw \<notin> set (fst (otel_wrapper lib m env hp w args kw))
      \<longrightarrow> length (filter is_set_attribute (fst (otel_wrapper lib m env hp w args kw))) \<le> 1
          \<and> isl (snd (otel_wrapper lib m env hp w args kw))"
    using few_attributes_without_handler [of n c kd lib m env hp w args kw] by blast
qed

theorem faas_attributes_set_when_recording_witness:
  "filter is_set_attribute
     (takeWhile (\<lambda>e. \<not> is_handler_call e)
        (fst (otel_wrapper lib_ex module_ex env_lambda heap_ok (otel_handler heap_ok 0)
                [event_ex, lambda_context_ex] [])))
     = [SetAttribute ''faas.execution'' (PStr (ustr ''req-1'')),
        SetAttribute ''faas.id''
          (PStr (ustr ''arn:aws:lambda:us-east-1:123456789012:function:f'')),
        SetAttribute ''faas.name'' (PStr (ustr ''f'')),
        SetAttribute ''faas.version'' (PStr (ustr ''7''))]
   \<and> HandlerCall [event_ex, lambda_context_ex] []
       \<in> set (fst (otel_wrapper lib_ex module_ex env_lambda heap_ok (otel_handler heap_ok 0)
                [event_ex, lambda_context_ex] []))
   \<and> filter is_set_attribute
       (fst (otel_wrapper lib_not_recording module_ex env_lambda heap_ok (otel_handler heap_ok 0)
               [event_ex, lambda_context_ex] [])) = []
   \<and> length (filter is_set_attribute
       (fst (otel_wrapper lib_ex module_ex env_lambda heap_ok (otel_handler heap_ok 0)
               [event_ex, PInt 3] []))) \<le> 1"
  using faas_attributes_set_when_recording
          [where a = "[event_ex, lambda_context_ex]" and k = "[]" and lib = lib_ex
             and m = module_ex and env = env_lambda and hp = heap_ok
             and w = "otel_handler heap_ok 0" and args = "[event_ex, lambda_context_ex]"
             and kw = "[]" and n = "ustr ''app.lambda_handler''"
             and c = "\<lparr>current_span = Some \<lparr>trace_id = 7, span_id = 8, trace_flags = 1\<rparr>,
                       entries = []\<rparr>"
             and kd = SERVER and mo = "ustr ''app''" and na = "ustr ''lambda_handler''"
             and ctx = "\<lparr>current_span = Some \<lparr>trace_id = 7, span_id = 8, trace_flags = 1\<rparr>,
                         entries = []\<rparr>"
             and rid' = "PStr (ustr ''req-1'')"
             and arn' = "PStr (ustr ''arn:aws:lambda:us-east-1:123456789012:function:f'')"]
        faas_attributes_set_when_recording
          [where a = "[event_ex, lambda_context_ex]" and k = "[]" and lib = lib_not_recording
             and m = module_ex and env = env_lambda and hp = heap_ok
             and w = "otel_handler heap_ok 0" and args = "[event_ex, lambda_context_ex]"
             and kw = "[]" and n = "ustr ''app.lambda_handler''"
             and c = "\<lparr>current_span = Some \<lparr>trace_id = 7, span_id = 8, trace_flags = 1\<rparr>,
                       entries = []\<rparr>"
             and kd = SERVER and mo = "ustr ''app''" and na = "ustr ''lambda_handler''"
             and ctx = "\<lparr>current_span = Some \<lparr>trace_id = 7, span_id = 8, trace_flags = 1\<rparr>,
                         entries = []\<rparr>"
             and rid' = "PStr (ustr ''req-1'')"
             and arn' = "PStr (ustr ''arn:aws:lambda:us-east-1:123456789012:function:f'')"]
        faas_attributes_set_when_recording
          [where a = "[event_ex, PInt 3]" and k = "[]" and lib = lib_ex
             and m = module_ex and env = env_lambda and hp = heap_ok
             and w = "otel_handler heap_ok 0" and args = "[event_ex, PInt 3]"
             and kw = "[]" and n = "ustr ''app.lambda_handler''"
             and c = "\<lparr>current_span = Some \<lparr>trace_id = 7, span_id = 8, trace_flags = 1\<rparr>,
                       entries = []\<rparr>"
             and kd = SERVER and mo = "ustr ''app''" and na = "ustr ''lambda_handler''"
             and ctx = "\<lparr>current_span = Some \<lparr>trace_id = 7, span_id = 8, trace_flags = 1\<rparr>,
                         entries = []\<rparr>"
             and rid' = "PStr (ustr ''req-1'')"
             and arn' = "PStr (ustr ''arn:aws:lambda:us-east-1:123456789012:function:f'')"]
  by (simp add: example_defs model_defs)

text \<open>
  C7 as stated, for every invocation, fails: under a recording span, a context that
  has an ARN and no request id gets no attribute call at all, not four.
\<close>

theorem four_attributes_counterexample:
  "is_recording lib_ex (ustr ''app.lambda_handler'')
     \<lparr>current_span = Some \<lparr>trace_id = 7, span_id = 8, trace_flags = 1\<rparr>, entries = []\<rparr> SERVER
   \<and> otel_wrapper lib_ex module_ex env_lambda heap_ok (otel_handler heap_ok 0)
        [event_ex, PObj [(''invoked_function_arn'', PStr (ustr ''arn:aws:lambda:f''))]] []
     = ([StartSpan (ustr ''app.lambda_handler'')
           \<lparr>current_span = Some \<lparr>trace_id = 7, span_id = 8, trace_flags = 1\<rparr>, entries = []\<rparr>
           SERVER,
         EndSpan (Some AttributeError)],
        Inl AttributeError)
   \<and> filter is_set_attribute
        (fst (otel_wrapper lib_ex module_ex env_lambda heap_ok (otel_handler heap_ok 0)
                [event_ex, PObj [(''invoked_function_arn'', PStr (ustr ''arn:aws:lambda:f''))]]
                [])) = []"
  by (simp add: example_defs model_defs)

lemma recording_attribute_failure:
  assumes n: "handler_name (hp (w_wrapped w)) = Inr n"
    and ne: "args \<noteq> []"
    and d: "snd (determine_parent_context lib env (hd args)) = Inr ctx"
    and rc: "is_recording lib n ctx SERVER"
    and f: "set_faas_attributes env args = (evs, Some e)"
  shows "otel_wrapper lib m env hp w args kw =
           (fst (determine_parent_context lib env (hd args))
              @ StartSpan n ctx SERVER # evs @ [EndSpan (Some e)],
            Inl e)"
  unfolding otel_wrapper_in_span [where hp = hp and w = w, OF n ne d]
    span_body_recording [OF rc] f
  by simp

text \<open>
  C8, as the code has it. The reads of the context's fields are not guarded. Under a
  recording span, a context without \<^verbatim>\<open>aws_request_id\<close> ends the invocation with
  \<^verbatim>\<open>AttributeError\<close> before any attribute is set, and a context with it but without
  \<^verbatim>\<open>invoked_function_arn\<close> ends it with \<^verbatim>\<open>AttributeError\<close> after
  \<^verbatim>\<open>faas.execution\<close> alone is set; in both runs the span is closed with the exception
  and the handler is not called.
\<close>

theorem missing_context_fields_abort:
  "(f_module (hp (w_wrapped w)) = Some (PStr mo) \<and> f_name (hp (w_wrapped w)) = Some (PStr na)
      \<and> args \<noteq> [] \<and> snd (determine_parent_context lib env (hd args)) = Inr ctx
      \<and> is_recording lib (mo @ ustr ''.'' @ na) ctx SERVER
      \<and> 1 < length args \<and> getattr (args ! 1) ''aws_request_id'' = Inl e
    \<longrightarrow> otel_wrapper lib m env hp w args kw =
          (fst (determine_parent_context lib env (hd args))
             @ [StartSpan (mo @ ustr ''.'' @ na) ctx SERVER,
                EndSpan (Some AttributeError)],
           Inl AttributeError))
   \<and> (f_module (hp (w_wrapped w)) = Some (PStr mo) \<and> f_name (hp (w_wrapped w)) = Some (PStr na)
      \<and> args \<noteq> [] \<and> snd (determine_parent_context lib env (hd args)) = Inr ctx
      \<and> is_recording lib (mo @ ustr ''.'' @ na) ctx SERVER
      \<and> 1 < length args \<and> getattr (args ! 1) ''aws_request_id'' = Inr rid
      \<and> getattr (args ! 1) ''invoked_function_arn'' = Inl e
    \<longrightarrow> otel_wrapper lib m env hp w args kw =
          (fst (determine_parent_context lib env (hd args))
             @ [StartSpan (mo @ ustr ''.'' @ na) ctx SERVER,
                SetAttribute ''faas.execution'' rid,
                EndSpan (Some AttributeError)],
           Inl AttributeError))"
proof (intro conjI impI)
  assume a: "f_module (hp (w_wrapped w)) = Some (PStr mo)
      \<and> f_name (hp (w_wrapped w)) = Some (PStr na)
      \<and> args \<noteq> [] \<and> snd (determine_parent_context lib env (hd args)) = Inr ctx
      \<and> is_recording lib (mo @ ustr ''.'' @ na) ctx SERVER
      \<and> 1 < length args \<and> getattr (args ! 1) ''aws_request_id'' = Inl e"
  then have e: "e = AttributeError" using getattr_error by blast
  from a have n: "handler_name (hp (w_wrapped w)) = Inr (mo @ ustr ''.'' @ na)"
    by (simp add: handler_name_strs ustr_def)
  from a e have "set_faas_attributes env args = ([], Some AttributeError)"
    by (simp add: set_faas_attributes_def arg_at_def)
  with a n show "otel_wrapper lib m env hp w args kw =
          (fst (determine_parent_context lib env (hd args))
             @ [StartSpan (mo @ ustr ''.'' @ na) ctx SERVER,
                EndSpan (Some AttributeError)],
           Inl AttributeError)"
    using recording_attribute_failure
            [of hp w "mo @ ustr ''.'' @ na" args lib env ctx "[]" AttributeError m kw]
    by simp
next
  assume a: "f_module (hp (w_wrapped w)) = Some (PStr mo)
      \<and> f_name (hp (w_wrapped w)) = Some (PStr na)
      \<and> args \<noteq> [] \<and> snd (determine_parent_context lib env (hd args)) = Inr ctx
      \<and> is_recording lib (mo @ ustr ''.'' @ na) ctx SERVER
      \<and> 1 < length args \<and> getattr (args ! 1) ''aws_request_id'' = Inr rid
      \<and> getattr (args ! 1) ''invoked_function_arn'' = Inl e"
  then have e: "e = AttributeError" using getattr_error by blast
  from a have n: "handler_name (hp (w_wrapped w)) = Inr (mo @ ustr ''.'' @ na)"
    by (simp add: handler_name_strs ustr_def)
  from a e have "set_faas_attributes env args
                   = ([SetAttribute ''faas.execution'' rid], Some AttributeError)"
    by (simp add: set_faas_attributes_def arg_at_def FAAS_EXECUTION_def)
  with a n show "otel_wrapper lib m env hp w args kw =
          (fst (determine_parent_context lib env (hd args))
             @ [StartSpan (mo @ ustr ''.'' @ na) ctx SERVER,
                SetAttribute ''faas.execution'' rid,
                EndSpan (Some AttributeError)],
           Inl AttributeError)"
    using recording_attribute_failure
            [of hp w "mo @ ustr ''.'' @ na" args lib env ctx
                "[SetAttribute ''faas.execution'' rid]" AttributeError m kw]
    by simp
qed

theorem missing_context_fields_abort_witness:
  "otel_wrapper lib_ex module_ex env_lambda heap_ok (otel_handler heap_ok 0)
     [PDict [], PObj []] []
   = ([LogDebug extract_failed_msg,
       StartSpan (ustr ''app.lambda_handler'') empty_context SERVER,
       EndSpan (Some AttributeError)],
      Inl AttributeError)
   \<and> otel_wrapper lib_ex module_ex env_lambda heap_ok (otel_handler heap_ok 0)
     [PDict [], PObj [(''aws_request_id'', PStr (ustr ''req-2''))]] []
   = ([LogDebug extract_failed_msg,
       StartSpan (ustr ''app.lambda_handler'') empty_context SERVER,
       SetAttribute ''faas.execution'' (PStr (ustr ''req-2'')),
       EndSpan (Some AttributeError)],
      Inl AttributeError)"
  using missing_context_fields_abort
          [where args = "[PDict [], PObj []]" and lib = lib_ex and env = env_lambda
             and ctx = empty_context and hp = heap_ok and w = "otel_handler heap_ok 0"
             and mo = "ustr ''app''" and na = "ustr ''lambda_handler''"
             and e = AttributeError and m = module_ex and kw = "[]"
             and rid = "PStr (ustr ''req-2'')"]
        missing_context_fields_abort
          [where args = "[PDict [], PObj [(''aws_request_id'', PStr (ustr ''req-2''))]]"
             and lib = lib_ex and env = env_lambda
             and ctx = empty_context and hp = heap_ok and w = "otel_handler heap_ok 0"
             and mo = "ustr ''app''" and na = "ustr ''lambda_handler''"
             and e = AttributeError and m = module_ex and kw = "[]"
             and rid = "PStr (ustr ''req-2'')"]
  by (simp add: example_defs model_defs)

text \<open>
  C8 as stated fails: with a context that has a request id and no ARN, the invocation
  aborts and the handler is not invoked.
\<close>

theorem guarded_context_fields_counterexample:
  "otel_wrapper lib_ex module_ex env_lambda heap_ok (otel_handler heap_ok 0)
     [event_ex, PObj [(''aws_request_id'', PStr (ustr ''req-1''))]] []
   = ([StartSpan (ustr ''app.lambda_handler'')
         \<lparr>current_span = Some \<lparr>trace_id = 7, span_id = 8, trace_flags = 1\<rparr>, entries = []\<rparr>
         SERVER,
       SetAttribute ''faas.execution'' (PStr (ustr ''req-1'')),
       EndSpan (Some AttributeError)],
      Inl AttributeError)
   \<and> filter is_handler_call
        (fst (otel_wrapper lib_ex module_ex env_lambda heap_ok (otel_handler heap_ok 0)
                [event_ex, PObj [(''aws_request_id'', PStr (ustr ''req-1''))]] [])) = []"
  by (simp add: example_defs model_defs)

text \<open>Every attribute call of a run is one of the \<^verbatim>\<open>if span.is_recording()\<close> block.\<close>

lemma set_attribute_in_trace:
  assumes "SetAttribute key v \<in> set (fst (otel_wrapper lib m env hp w args kw))"
  shows "SetAttribute key v \<in> set (fst (set_faas_attributes env args))"
proof -
  from assms have "fst (otel_wrapper lib m env hp w args kw) \<noteq> []" by auto
  from trace_nonempty [OF this] obtain n where
    ne: "args \<noteq> []" and n: "handler_name (hp (w_wrapped w)) = Inr n"
    by blast
  note l = determine_parent_context_log [of lib env "hd args"]
  show ?thesis
  proof (cases "snd (determine_parent_context lib env (hd args))")
    case (Inl e)
    from assms l show ?thesis
      unfolding otel_wrapper_extract_raises [where hp = hp and w = w, OF n ne Inl] by auto
  next
    case (Inr ctx)
    from assms l show ?thesis
      unfolding otel_wrapper_in_span [where hp = hp and w = w, OF n ne Inr]
      by (auto simp: span_body_def split: sum.splits if_splits prod.splits option.splits
          dest: flush_and_return_member)
  qed
qed

text \<open>
  C9, as the code has it. The value of \<^verbatim>\<open>faas.name\<close> and of \<^verbatim>\<open>faas.version\<close> is the
  string of the environment variable when it is set and \<^verbatim>\<open>None\<close> when it is unset;
  the values of \<^verbatim>\<open>faas.execution\<close> and \<^verbatim>\<open>faas.id\<close> are the context's
  \<^verbatim>\<open>aws_request_id\<close> and \<^verbatim>\<open>invoked_function_arn\<close> as they are.
\<close>

theorem faas_attribute_values:
  "SetAttribute key v \<in> set (fst (otel_wrapper lib m env hp w args kw)) \<longrightarrow>
     (key = ''faas.execution'' \<and> getattr (args ! 1) ''aws_request_id'' = Inr v)
   \<or> (key = ''faas.id'' \<and> getattr (args ! 1) ''invoked_function_arn'' = Inr v)
   \<or> (key = ''faas.name'' \<and>
        v = (case env ''AWS_LAMBDA_FUNCTION_NAME'' of None \<Rightarrow> PNone | Some s \<Rightarrow> PStr s))
   \<or> (key = ''faas.version'' \<and>
        v = (case env ''AWS_LAMBDA_FUNCTION_VERSION'' of None \<Rightarrow> PNone | Some s \<Rightarrow> PStr s))"
proof
  assume "SetAttribute key v \<in> set (fst (otel_wrapper lib m env hp w args kw))"
  then have "SetAttribute key v \<in> set (fst (set_faas_attributes env args))"
    by (rule set_attribute_in_trace)
  then show "(key = ''faas.execution'' \<and> getattr (args ! 1) ''aws_request_id'' = Inr v)
   \<or> (key = ''faas.id'' \<and> getattr (args ! 1) ''invoked_function_arn'' = Inr v)
   \<or> (key = ''faas.name'' \<and>
        v = (case env ''AWS_LAMBDA_FUNCTION_NAME'' of None \<Rightarrow> PNone | Some s \<Rightarrow> PStr s))
   \<or> (key = ''faas.version'' \<and>
        v = (case env ''AWS_LAMBDA_FUNCTION_VERSION'' of None \<Rightarrow> PNone | Some s \<Rightarrow> PStr s))"
    by (auto simp: set_faas_attributes_def arg_at_def FAAS_EXECUTION_def environ_get_def
        split: sum.splits if_splits)
qed

theorem faas_attribute_values_witness:
  "SetAttribute ''faas.name'' (PStr (ustr ''f''))
     \<in> set (fst (otel_wrapper lib_ex module_ex env_lambda heap_ok (otel_handler heap_ok 0)
                   [event_ex, lambda_context_ex] []))
   \<and> env_lambda ''AWS_LAMBDA_FUNCTION_NAME'' = Some (ustr ''f'')"
  using faas_attribute_values
          [where key = "''faas.name''" and v = "PStr (ustr ''f'')" and lib = lib_ex
             and m = module_ex and env = env_lambda and hp = heap_ok
             and w = "otel_handler heap_ok 0"
             and args = "[event_ex, lambda_context_ex]" and kw = "[]"]
  by (simp add: example_defs model_defs)

text \<open>
  C9 as stated fails: with \<^verbatim>\<open>AWS_LAMBDA_FUNCTION_NAME\<close> and
  \<^verbatim>\<open>AWS_LAMBDA_FUNCTION_VERSION\<close> unset, the two values are \<^verbatim>\<open>None\<close>, not strings.
\<close>

theorem faas_attribute_strings_counterexample:
  "env_empty ''AWS_LAMBDA_FUNCTION_NAME'' = None
   \<and> filter is_set_attribute
       (fst (otel_wrapper lib_ex module_ex env_empty heap_ok (otel_handler heap_ok 0)
               [event_ex, lambda_context_ex] []))
     = [SetAttribute ''faas.execution'' (PStr (ustr ''req-1'')),
        SetAttribute ''faas.id''
          (PStr (ustr ''arn:aws:lambda:us-east-1:123456789012:function:f'')),
        SetAttribute ''faas.name'' PNone,
        SetAttribute ''faas.version'' PNone]"
  by (simp add: example_defs model_defs)

lemma handler_name_missing:
  "f_module h = None \<or> f_name h = None \<Longrightarrow> handler_name h = Inl AttributeError"
  by (auto simp: handler_name_def split: option.splits)

lemma handler_name_not_str:
  assumes "f_module h = Some mv" "f_name h = Some nv"
    and "(\<forall>s. mv \<noteq> PStr s) \<or> (\<forall>s. nv \<noteq> PStr s)"
  shows "handler_name h = Inl TypeError"
  using assms by (cases mv; cases nv) (auto simp: handler_name_def join_def)

text \<open>
  C10, as the code has it. The wrapper reads the handler's \<^verbatim>\<open>__module__\<close> and
  \<^verbatim>\<open>__name__\<close> before it reads \<^verbatim>\<open>args[0]\<close>. Called with no positional argument, it
  raises having done nothing (no span, no handler call): \<^verbatim>\<open>IndexError\<close> when both
  names are strings, as they are for a function, and before that
  \<^verbatim>\<open>AttributeError\<close> when the handler has no such attribute, or \<^verbatim>\<open>TypeError\<close> from the
  join when one is not a string, whatever the arguments are. Called with one positional
  argument, when a span is started and is recording, it raises \<^verbatim>\<open>IndexError\<close> from
  \<^verbatim>\<open>args[1]\<close>: the span is closed with it and the handler is not called.
\<close>

theorem missing_positional_arguments_fail:
  "(f_module (hp (w_wrapped w)) = Some (PStr mo) \<and> f_name (hp (w_wrapped w)) = Some (PStr na)
      \<longrightarrow> otel_wrapper lib m env hp w [] kw = ([], Inl IndexError))
   \<and> (f_module (hp (w_wrapped w)) = None \<or> f_name (hp (w_wrapped w)) = None
      \<longrightarrow> otel_wrapper lib m env hp w args kw = ([], Inl AttributeError))
   \<and> (f_module (hp (w_wrapped w)) = Some mv \<and> f_name (hp (w_wrapped w)) = Some nv
        \<and> ((\<forall>s. mv \<noteq> PStr s) \<or> (\<forall>s. nv \<noteq> PStr s))
      \<longrightarrow> otel_wrapper lib m env hp w args kw = ([], Inl TypeError))
   \<and> (StartSpan n c kd \<in> set (fst (otel_wrapper lib m env hp w [ev] kw))
        \<and> is_recording lib n c kd
      \<longrightarrow> otel_wrapper lib m env hp w [ev] kw =
            (fst (determine_parent_context lib env ev) @ [StartSpan n c kd, EndSpan (Some IndexError)],
             Inl IndexError))"
proof (intro conjI)
  show "f_module (hp (w_wrapped w)) = Some (PStr mo) \<and> f_name (hp (w_wrapped w)) = Some (PStr na)
      \<longrightarrow> otel_wrapper lib m env hp w [] kw = ([], Inl IndexError)"
    using otel_wrapper_no_args [where hp = hp and w = w and n = "mo @ 46 # na"]
    by (simp add: handler_name_strs)
next
  show "f_module (hp (w_wrapped w)) = None \<or> f_name (hp (w_wrapped w)) = None
      \<longrightarrow> otel_wrapper lib m env hp w args kw = ([], Inl AttributeError)"
    using handler_name_missing [of "hp (w_wrapped w)"]
      otel_wrapper_name_fails [where hp = hp and w = w and e = AttributeError]
    by blast
next
  show "f_module (hp (w_wrapped w)) = Some mv \<and> f_name (hp (w_wrapped w)) = Some nv
        \<and> ((\<forall>s. mv \<noteq> PStr s) \<or> (\<forall>s. nv \<noteq> PStr s))
      \<longrightarrow> otel_wrapper lib m env hp w args kw = ([], Inl TypeError)"
    using handler_name_not_str [of "hp (w_wrapped w)" mv nv]
      otel_wrapper_name_fails [where hp = hp and w = w and e = TypeError]
    by blast
next
  show "StartSpan n c kd \<in> set (fst (otel_wrapper lib m env hp w [ev] kw))
        \<and> is_recording lib n c kd
      \<longrightarrow> otel_wrapper lib m env hp w [ev] kw =
            (fst (determine_parent_context lib env ev) @ [StartSpan n c kd, EndSpan (Some IndexError)],
             Inl IndexError)"
  proof (rule impI)
    assume a: "StartSpan n c kd \<in> set (fst (otel_wrapper lib m env hp w [ev] kw))
        \<and> is_recording lib n c kd"
    then have s: "snd (determine_parent_context lib env (hd [ev])) = Inr c"
      and n: "handler_name (hp (w_wrapped w)) = Inr n"
      and kd: "kd = SERVER"
      using span_started [of n c kd lib m env hp w "[ev]" kw] by simp_all
    have f: "set_faas_attributes env [ev] = ([], Some IndexError)"
      by (simp add: set_faas_attributes_def arg_at_def)
    from a kd have rc: "is_recording lib n c SERVER"
      by simp
    have ne: "[ev] \<noteq> []" by simp
    from recording_attribute_failure [of hp w n "[ev]" lib env c "[]" IndexError m kw]
      n ne s rc f kd
    show "otel_wrapper lib m env hp w [ev] kw =
            (fst (determine_parent_context lib env ev) @ [StartSpan n c kd, EndSpan (Some IndexError)],
             Inl IndexError)"
      by simp
  qed
qed

theorem missing_positional_arguments_fail_witness:
  "otel_wrapper lib_ex module_ex env_lambda heap_ok (otel_handler heap_ok 0) [] []
     = ([], Inl IndexError)
   \<and> otel_wrapper lib_ex module_ex env_lambda heap_partial (otel_handler heap_partial 0)
        [event_ex, lambda_context_ex] []
     = ([], Inl AttributeError)
   \<and> otel_wrapper lib_ex module_ex env_lambda heap_ok (otel_handler heap_ok 0) [event_ex] []
     = ([StartSpan (ustr ''app.lambda_handler'')
           \<lparr>current_span = Some \<lparr>trace_id = 7, span_id = 8, trace_flags = 1\<rparr>, entries = []\<rparr>
           SERVER,
         EndSpan (Some IndexError)],
        Inl IndexError)"
  using missing_positional_arguments_fail
          [where lib = lib_ex and m = module_ex and env = env_lambda and hp = heap_ok
             and w = "otel_handler heap_ok 0" and kw = "[]" and ev = event_ex
             and mo = "ustr ''app''" and na = "ustr ''lambda_handler''"
             and mv = "PStr (ustr ''app'')" and nv = "PStr (ustr ''lambda_handler'')"
             and args = "[]"
             and n = "ustr ''app.lambda_handler''"
             and c = "\<lparr>current_span = Some \<lparr>trace_id = 7, span_id = 8, trace_flags = 1\<rparr>,
                       entries = []\<rparr>"
             and kd = SERVER]
        missing_positional_arguments_fail
          [where lib = lib_ex and m = module_ex and env = env_lambda and hp = heap_partial
             and w = "otel_handler heap_partial 0" and kw = "[]" and ev = event_ex
             and mo = "ustr ''app''" and na = "ustr ''lambda_handler''"
             and mv = "PStr (ustr ''app'')" and nv = "PStr (ustr ''lambda_handler'')"
             and args = "[event_ex, lambda_context_ex]"
             and n = "ustr ''app.lambda_handler''"
             and c = "\<lparr>current_span = Some \<lparr>trace_id = 7, span_id = 8, trace_flags = 1\<rparr>,
                       entries = []\<rparr>"
             and kd = SERVER]
  by (simp add: example_defs model_defs)

text \<open>
  C10 as stated fails: for a \<^verbatim>\<open>functools.partial\<close> as the handler, which has no
  \<^verbatim>\<open>__name__\<close>, the call with no positional argument raises \<^verbatim>\<open>AttributeError\<close>, not
  an index-out-of-range error.
\<close>

theorem index_error_counterexample:
  "f_name (heap_partial 0) = None
   \<and> otel_wrapper lib_ex module_ex env_lambda heap_partial (otel_handler heap_partial 0) [] []
     = ([], Inl AttributeError)"
  by (simp add: example_defs model_defs)

section \<open>The flush timeout\<close>

text \<open>
  \<^verbatim>\<open>int\<close> reads back what \<^verbatim>\<open>str\<close> prints: the decimal digits of a natural number
  are ASCII digits, and parsing them gives the number.
\<close>

lemma str_of_nat_digits: "c \<in> set (str_of_nat n) \<Longrightarrow> is_digit c"
proof (induction n arbitrary: c rule: str_of_nat.induct)
  case (1 n)
  show ?case
  proof (cases "n < 10")
    case True
    with "1.prems" show ?thesis
      by (simp add: str_of_nat.simps [of n] is_digit_def)
  next
    case False
    have "n mod 10 < 10" by simp
    with False "1.prems" "1.IH" show ?thesis
      by (auto simp: str_of_nat.simps [of n] is_digit_def)
  qed
qed

lemma str_of_nat_nonempty: "str_of_nat n \<noteq> []"
  by (simp add: str_of_nat.simps [of n])

lemma parse_digits_all_digits:
  "\<forall>c \<in> set ds. is_digit c \<Longrightarrow>
     parse_digits ds acc = Some (foldl (\<lambda>a c. 10 * a + digit_val c) acc ds)"
  by (induction ds acc rule: parse_digits.induct) auto

lemma parse_unsigned_all_digits:
  assumes "ds \<noteq> []" "\<forall>c \<in> set ds. is_digit c"
  shows "parse_unsigned ds = Some (foldl (\<lambda>a c. 10 * a + digit_val c) 0 ds)"
  using assms by (cases ds) (simp_all add: parse_unsigned_def parse_digits_all_digits)

lemma str_of_nat_value: "foldl (\<lambda>a c. 10 * a + digit_val c) 0 (str_of_nat n) = n"
proof (induction n rule: str_of_nat.induct)
  case (1 n)
  show ?case
  proof (cases "n < 10")
    case True
    then show ?thesis
      by (simp add: str_of_nat.simps [of n] digit_val_def)
  next
    case False
    with "1.IH" show ?thesis
      by (simp add: str_of_nat.simps [of n] digit_val_def)
  qed
qed

lemma parse_unsigned_str_of_nat: "parse_unsigned (str_of_nat n) = Some n"
  using parse_unsigned_all_digits [of "str_of_nat n"] str_of_nat_digits [of _ n]
  by (simp add: str_of_nat_nonempty str_of_nat_value)

lemma strip_id:
  assumes "s \<noteq> []" "\<not> is_space (hd s)" "\<not> is_space (last s)"
  shows "strip s = s"
proof -
  from assms have a: "dropWhile is_space s = s" by (cases s) simp_all
  from assms have "dropWhile is_space (rev s) = rev s"
    by (cases "rev s") (simp_all add: hd_rev)
  with a show ?thesis by (simp add: strip_def)
qed

lemma str_of_nat_ends:
  "is_digit (hd (str_of_nat n))" "is_digit (last (str_of_nat n))"
  using str_of_nat_digits [of "hd (str_of_nat n)" n] str_of_nat_digits [of "last (str_of_nat n)" n]
    str_of_nat_nonempty [of n]
  by simp_all

lemma digit_not_space: "is_digit c \<Longrightarrow> \<not> is_space c"
  by (auto simp: is_digit_def is_space_def)

lemma digit_not_sign: "is_digit c \<Longrightarrow> c \<noteq> 45 \<and> c \<noteq> 43"
  by (auto simp: is_digit_def)

text \<open>What \<^verbatim>\<open>str\<close> prints is ASCII, so it is read as it is.\<close>

lemma to_ascii_ascii: "\<forall>c \<in> set s. c < 128 \<Longrightarrow> to_ascii rt s = s"
  by (simp add: to_ascii_def list_all_iff)

lemma str_of_nat_ascii: "c \<in> set (str_of_nat n) \<Longrightarrow> c < 128"
  using str_of_nat_digits [of c n] by (simp add: is_digit_def)

lemma int_of_str_str_of_nat:
  assumes "int_max_str_digits rt = 0 \<or> length (str_of_nat n) \<le> int_max_str_digits rt"
  shows "int_of_str rt (str_of_nat n) = Inr (int n)"
proof -
  let ?s = "str_of_nat n"
  have ne: "?s \<noteq> []" by (rule str_of_nat_nonempty)
  have asc: "to_ascii rt ?s = ?s"
    using str_of_nat_ascii [of _ n] by (intro to_ascii_ascii) blast
  have st: "strip ?s = ?s"
    using str_of_nat_ends [of n] by (intro strip_id ne digit_not_space)
  have hd: "hd ?s \<noteq> 45" "hd ?s \<noteq> 43"
    using digit_not_sign [OF str_of_nat_ends(1) [of n]] by simp_all
  have lim: "\<not> (640 < length (filter is_digit ?s) \<and> 0 < int_max_str_digits rt
      \<and> int_max_str_digits rt < length (filter is_digit ?s))"
    using assms length_filter_le [of is_digit ?s] by arith
  from asc st ne hd lim show ?thesis
    by (simp add: int_of_str_def Let_def parse_unsigned_str_of_nat)
qed

lemma int_of_str_minus_str_of_nat:
  assumes "int_max_str_digits rt = 0 \<or> length (str_of_nat n) \<le> int_max_str_digits rt"
  shows "int_of_str rt (45 # str_of_nat n) = Inr (- int n)"
proof -
  let ?s = "45 # str_of_nat n"
  have ne: "str_of_nat n \<noteq> []" by (rule str_of_nat_nonempty)
  have asc: "to_ascii rt ?s = ?s"
    using str_of_nat_ascii [of _ n] by (intro to_ascii_ascii) auto
  have "\<not> is_space (last (str_of_nat n))"
    using str_of_nat_ends [of n] by (intro digit_not_space)
  with ne have st: "strip ?s = ?s"
    by (intro strip_id) (simp_all add: is_space_def)
  have lim: "\<not> (640 < length (filter is_digit (str_of_nat n)) \<and> 0 < int_max_str_digits rt
      \<and> int_max_str_digits rt < length (filter is_digit (str_of_nat n)))"
    using assms length_filter_le [of is_digit "str_of_nat n"] by arith
  from asc st lim show ?thesis
    by (simp add: int_of_str_def Let_def parse_unsigned_str_of_nat)
qed

lemma int_of_str_str_of_int:
  assumes "int_max_str_digits rt = 0 \<or> length (str_of_int i) \<le> int_max_str_digits rt"
  shows "int_of_str rt (str_of_int i) = Inr i"
proof (cases "i < 0")
  case True
  with assms have "int_max_str_digits rt = 0
      \<or> length (str_of_nat (nat (- i))) \<le> int_max_str_digits rt"
    by (auto simp: str_of_int_def)
  from int_of_str_minus_str_of_nat [OF this] True show ?thesis
    by (simp add: str_of_int_def)
next
  case False
  with assms have "int_max_str_digits rt = 0
      \<or> length (str_of_nat (nat i)) \<le> int_max_str_digits rt"
    by (auto simp: str_of_int_def)
  from int_of_str_str_of_nat [OF this] False show ?thesis
    by (simp add: str_of_int_def)
qed

text \<open>
  A literal that parses consists of digits and underscores after the white space and
  the sign are gone. An ASCII character that is none of these stays where it is when
  the string is brought to ASCII, unless a question mark was put before it, and either
  one makes \<^verbatim>\<open>int\<close> raise.
\<close>

lemma parse_digits_chars:
  "parse_digits s acc = Some n \<Longrightarrow> c \<in> set s \<Longrightarrow> is_digit c \<or> c = 95"
  by (induction s acc rule: parse_digits.induct) (auto split: if_splits)

lemma parse_unsigned_chars:
  "parse_unsigned s = Some n \<Longrightarrow> c \<in> set s \<Longrightarrow> is_digit c \<or> c = 95"
  using parse_digits_chars
  by (cases s) (auto simp: parse_unsigned_def split: if_splits)

lemma dropWhile_keeps: "c \<in> set s \<Longrightarrow> \<not> P c \<Longrightarrow> c \<in> set (dropWhile P s)"
  by (induction s) auto

lemma strip_keeps: "c \<in> set s \<Longrightarrow> \<not> is_space c \<Longrightarrow> c \<in> set (strip s)"
  using dropWhile_keeps [of c "rev (dropWhile is_space s)" is_space]
        dropWhile_keeps [of c s is_space]
  by (simp add: strip_def)

lemma bad_char_no_parse:
  assumes "c \<in> set t" "\<not> is_digit c" "\<not> is_space c" "c \<noteq> 43" "c \<noteq> 45" "c \<noteq> 95"
  shows "parse_unsigned
           (if strip t \<noteq> [] \<and> (hd (strip t) = 45 \<or> hd (strip t) = 43)
            then tl (strip t) else strip t) = None"
proof -
  let ?t = "strip t"
  let ?body = "if ?t \<noteq> [] \<and> (hd ?t = 45 \<or> hd ?t = 43) then tl ?t else ?t"
  from assms have ct: "c \<in> set ?t" by (intro strip_keeps)
  then have ne: "?t \<noteq> []" by auto
  from ct assms(4,5) ne have cb: "c \<in> set ?body"
    by (cases ?t) auto
  show ?thesis
  proof (cases "parse_unsigned ?body")
    case (Some n)
    from parse_unsigned_chars [OF Some cb] assms show ?thesis by simp
  qed simp
qed

lemma transform_keeps:
  "c \<in> set s \<Longrightarrow> c < 127 \<Longrightarrow>
     c \<in> set (transform_decimal_and_space rt s) \<or> 63 \<in> set (transform_decimal_and_space rt s)"
  by (induction s) (auto split: option.splits)

lemma to_ascii_keeps:
  assumes "c \<in> set s" "c < 127"
  shows "c \<in> set (to_ascii rt s) \<or> 63 \<in> set (to_ascii rt s)"
  using transform_keeps [OF assms, of rt] assms(1) by (auto simp: to_ascii_def)

lemma int_of_str_bad_char:
  assumes "c \<in> set s" "c < 127" "\<not> is_digit c" "\<not> is_space c"
    "c \<noteq> 43" "c \<noteq> 45" "c \<noteq> 95"
  shows "int_of_str rt s = Inl ValueError"
proof -
  from to_ascii_keeps [OF assms(1,2), of rt]
  have "parse_unsigned
           (if strip (to_ascii rt s) \<noteq> []
               \<and> (hd (strip (to_ascii rt s)) = 45 \<or> hd (strip (to_ascii rt s)) = 43)
            then tl (strip (to_ascii rt s)) else strip (to_ascii rt s)) = None"
  proof
    assume "c \<in> set (to_ascii rt s)"
    with assms show ?thesis by (intro bad_char_no_parse [of c])
  next
    assume "63 \<in> set (to_ascii rt s)"
    then show ?thesis
      by (intro bad_char_no_parse [of 63]) (simp_all add: is_digit_def is_space_def)
  qed
  then show ?thesis by (simp add: int_of_str_def Let_def)
qed

text \<open>The flush of a run carries the timeout stored in the module, whatever the environment is by then.\<close>

lemma flush_uses_module_timeout:
  assumes "ForceFlush t \<in> set (fst (otel_wrapper lib m env hp w args kw))"
  shows "t = flush_timeout m"
proof -
  from assms have "fst (otel_wrapper lib m env hp w args kw) \<noteq> []" by auto
  from trace_nonempty [OF this] obtain n where
    ne: "args \<noteq> []" and n: "handler_name (hp (w_wrapped w)) = Inr n"
    by blast
  note l = determine_parent_context_log [of lib env "hd args"]
  show ?thesis
  proof (cases "snd (determine_parent_context lib env (hd args))")
    case (Inl e)
    from assms l show ?thesis
      unfolding otel_wrapper_extract_raises [where hp = hp and w = w, OF n ne Inl] by auto
  next
    case (Inr ctx)
    have "ForceFlush t \<notin> set (fst (span_body lib env (hp (w_wrapped w)) n ctx args kw))"
      using span_body_no_flush [of lib env "hp (w_wrapped w)" n ctx args kw]
      by (auto simp: filter_empty_conv)
    with assms l show ?thesis
      unfolding otel_wrapper_in_span [where hp = hp and w = w, OF n ne Inr]
      by (auto split: sum.splits dest: flush_and_return_member)
  qed
qed

text \<open>
  C5, as the code has it. The timeout is computed when the module is loaded and the
  wrapper passes that stored value to every flush. It is 30000 when
  \<^verbatim>\<open>OTEL_INSTRUMENTATION_AWS_LAMBDA_FLUSH_TIMEOUT\<close> is unset; when the variable holds
  the decimal text of an integer (within the interpreter's digit limit, if it has one)
  it is that integer, and in general it is whatever \<^verbatim>\<open>int\<close> makes of the value. When
  \<^verbatim>\<open>int\<close> raises, the import raises: a value with an ASCII character that is not a
  digit, white space, a sign or an underscore gives \<^verbatim>\<open>ValueError\<close>, and no default is
  put in its place.
\<close>

theorem flush_timeout_read_at_load:
  "(env ''OTEL_INSTRUMENTATION_AWS_LAMBDA_FLUSH_TIMEOUT'' = None
      \<longrightarrow> module_load rt env = Inr \<lparr>flush_timeout = 30000\<rparr>)
   \<and> (env ''OTEL_INSTRUMENTATION_AWS_LAMBDA_FLUSH_TIMEOUT'' = Some (str_of_int i)
        \<and> (int_max_str_digits rt = 0 \<or> length (str_of_int i) \<le> int_max_str_digits rt)
      \<longrightarrow> module_load rt env = Inr \<lparr>flush_timeout = i\<rparr>)
   \<and> (env ''OTEL_INSTRUMENTATION_AWS_LAMBDA_FLUSH_TIMEOUT'' = Some s
        \<and> int_of_str rt s = Inr n
      \<longrightarrow> module_load rt env = Inr \<lparr>flush_timeout = n\<rparr>)
   \<and> (env ''OTEL_INSTRUMENTATION_AWS_LAMBDA_FLUSH_TIMEOUT'' = Some s
        \<and> int_of_str rt s = Inl e
      \<longrightarrow> module_load rt env = Inl e)
   \<and> (env ''OTEL_INSTRUMENTATION_AWS_LAMBDA_FLUSH_TIMEOUT'' = Some s
        \<and> c \<in> set s \<and> c < 127 \<and> \<not> is_digit c \<and> \<not> is_space c
        \<and> c \<noteq> 43 \<and> c \<noteq> 45 \<and> c \<noteq> 95
      \<longrightarrow> module_load rt env = Inl ValueError)
   \<and> (ForceFlush t \<in> set (fst (otel_wrapper lib m env' hp w args kw))
      \<longrightarrow> t = flush_timeout m)"
  using int_of_str_str_of_int [of rt i] int_of_str_bad_char [of c s rt]
        flush_uses_module_timeout [of t lib m env' hp w args kw]
  by (auto simp: module_load_def)

lemmas int_defs =
  module_load_def int_of_str_def to_ascii_def strip_def parse_unsigned_def is_digit_def
  is_space_def digit_val_def str_of_int_def str_of_nat.simps cpython311_def
  unicode_is_space_def unicode_decimal_def unicode_spaces_def unicode_digit_zeros_def

text \<open>
  Under CPython 3.11: the variable unset, set to \<^verbatim>\<open>5000\<close>, set to \<^verbatim>\<open>5s\<close>, set to
  \<^verbatim>\<open>5000\<close> after a no-break space, and set to \<^verbatim>\<open>5000\<close> in Arabic-Indic digits; and a
  run of the wrapper whose module was loaded with 5000.
\<close>

theorem flush_timeout_read_at_load_witness:
  "module_load cpython311 env_lambda = Inr \<lparr>flush_timeout = 30000\<rparr>
   \<and> module_load cpython311
        (env_lambda(''OTEL_INSTRUMENTATION_AWS_LAMBDA_FLUSH_TIMEOUT'' \<mapsto> ustr ''5000''))
       = Inr \<lparr>flush_timeout = 5000\<rparr>
   \<and> module_load cpython311
        (env_lambda(''OTEL_INSTRUMENTATION_AWS_LAMBDA_FLUSH_TIMEOUT'' \<mapsto> ustr ''5s''))
       = Inl ValueError
   \<and> module_load cpython311
        (env_lambda(''OTEL_INSTRUMENTATION_AWS_LAMBDA_FLUSH_TIMEOUT'' \<mapsto> 160 # ustr ''5000''))
       = Inr \<lparr>flush_timeout = 5000\<rparr>
   \<and> module_load cpython311
        (env_lambda(''OTEL_INSTRUMENTATION_AWS_LAMBDA_FLUSH_TIMEOUT'' \<mapsto> [1637, 1632, 1632, 1632]))
       = Inr \<lparr>flush_timeout = 5000\<rparr>
   \<and> filter is_force_flush
       (fst (otel_wrapper lib_ex \<lparr>flush_timeout = 5000\<rparr>
               (env_lambda(''OTEL_INSTRUMENTATION_AWS_LAMBDA_FLUSH_TIMEOUT'' \<mapsto> ustr ''1''))
               heap_ok (otel_handler heap_ok 0) [event_ex, lambda_context_ex] []))
       = [ForceFlush 5000]"
  using flush_timeout_read_at_load
          [where env = env_lambda and rt = cpython311 and i = 5000 and s = "ustr ''5s''"
             and n = 5000 and e = ValueError and c = 115 and t = 5000
             and lib = lib_ex and m = "\<lparr>flush_timeout = 5000\<rparr>"
             and env' = "env_lambda(''OTEL_INSTRUMENTATION_AWS_LAMBDA_FLUSH_TIMEOUT'' \<mapsto> ustr ''1'')"
             and hp = heap_ok and w = "otel_handler heap_ok 0"
             and args = "[event_ex, lambda_context_ex]" and kw = "[]"]
        flush_timeout_read_at_load
          [where env = "env_lambda(''OTEL_INSTRUMENTATION_AWS_LAMBDA_FLUSH_TIMEOUT'' \<mapsto> ustr ''5000'')"
             and rt = cpython311 and i = 5000 and s = "ustr ''5000''"
             and n = 5000 and e = ValueError and c = 115 and t = 5000
             and lib = lib_ex and m = "\<lparr>flush_timeout = 5000\<rparr>"
             and env' = "env_lambda(''OTEL_INSTRUMENTATION_AWS_LAMBDA_FLUSH_TIMEOUT'' \<mapsto> ustr ''1'')"
             and hp = heap_ok and w = "otel_handler heap_ok 0"
             and args = "[event_ex, lambda_context_ex]" and kw = "[]"]
        flush_timeout_read_at_load
          [where env = "env_lambda(''OTEL_INSTRUMENTATION_AWS_LAMBDA_FLUSH_TIMEOUT'' \<mapsto> ustr ''5s'')"
             and rt = cpython311 and i = 5000 and s = "ustr ''5s''"
             and n = 5000 and e = ValueError and c = 115 and t = 5000
             and lib = lib_ex and m = "\<lparr>flush_timeout = 5000\<rparr>"
             and env' = "env_lambda(''OTEL_INSTRUMENTATION_AWS_LAMBDA_FLUSH_TIMEOUT'' \<mapsto> ustr ''1'')"
             and hp = heap_ok and w = "otel_handler heap_ok 0"
             and args = "[event_ex, lambda_context_ex]" and kw = "[]"]
        flush_timeout_read_at_load
          [where env = "env_lambda(''OTEL_INSTRUMENTATION_AWS_LAMBDA_FLUSH_TIMEOUT'' \<mapsto> 160 # ustr ''5000'')"
             and rt = cpython311 and i = 5000 and s = "160 # ustr ''5000''"
             and n = 5000 and e = ValueError and c = 115 and t = 5000
             and lib = lib_ex and m = "\<lparr>flush_timeout = 5000\<rparr>"
             and env' = "env_lambda(''OTEL_INSTRUMENTATION_AWS_LAMBDA_FLUSH_TIMEOUT'' \<mapsto> ustr ''1'')"
             and hp = heap_ok and w = "otel_handler heap_ok 0"
             and args = "[event_ex, lambda_context_ex]" and kw = "[]"]
        flush_timeout_read_at_load
          [where env = "env_lambda(''OTEL_INSTRUMENTATION_AWS_LAMBDA_FLUSH_TIMEOUT'' \<mapsto> [1637, 1632, 1632, 1632])"
             and rt = cpython311 and i = 5000 and s = "[1637, 1632, 1632, 1632]"
             and n = 5000 and e = ValueError and c = 115 and t = 5000
             and lib = lib_ex and m = "\<lparr>flush_timeout = 5000\<rparr>"
             and env' = "env_lambda(''OTEL_INSTRUMENTATION_AWS_LAMBDA_FLUSH_TIMEOUT'' \<mapsto> ustr ''1'')"
             and hp = heap_ok and w = "otel_handler heap_ok 0"
             and args = "[event_ex, lambda_context_ex]" and kw = "[]"]
  by (simp add: example_defs model_defs int_defs)

text \<open>
  C5 as stated fails for an unparseable value: with the variable set to \<^verbatim>\<open>abc\<close> the
  module load raises \<^verbatim>\<open>ValueError\<close>; there is no timeout of 30000.
\<close>

theorem flush_timeout_unparseable_counterexample:
  "module_load cpython311
     (env_lambda(''OTEL_INSTRUMENTATION_AWS_LAMBDA_FLUSH_TIMEOUT'' \<mapsto> ustr ''abc''))
     = Inl ValueError"
  by (simp add: example_defs int_defs)

end
